theory Spec2Isabelle
  imports Complex_Main "HOL-Library.Word" "HOL-Library.Signed_Division"
begin

unbundle bit_operations_syntax

section \<open>Platform: machine integers, pointers, faults\<close>

text \<open>
  The helpers of \<^verbatim>\<open>src/erasurecode_helpers.c\<close> are embedded for an LP64 platform:
  \<^verbatim>\<open>int\<close> is a 32-bit word read in two's complement (\<open>sint\<close>), \<^verbatim>\<open>size_t\<close>,
  \<^verbatim>\<open>uint64_t\<close>, \<^verbatim>\<open>long\<close> and every pointer are 64-bit words, \<^verbatim>\<open>NULL\<close> is the
  pointer 0, and pointer arithmetic on \<^verbatim>\<open>char *\<close> is arithmetic on 64-bit words.
  Converting \<^verbatim>\<open>int\<close> to \<^verbatim>\<open>size_t\<close> extends the sign (\<open>scast\<close>); converting
  \<^verbatim>\<open>size_t\<close> to \<^verbatim>\<open>int\<close> keeps the low 32 bits (\<open>ucast\<close>).
\<close>

type_synonym cint = "32 word"
type_synonym size_t = "64 word"
type_synonym addr = "64 word"
type_synonym byte = "8 word"

text \<open>
  What C leaves undefined, and what aborts the process, is a value of the model:
  an access outside every live allocation, \<^verbatim>\<open>free\<close> of a pointer that is not the
  base of a live allocation, a failed \<^verbatim>\<open>assert\<close>, signed overflow, and the
  conversion to \<^verbatim>\<open>int\<close> of a floating-point value that no \<^verbatim>\<open>int\<close> holds.
\<close>

datatype fault =
    InvalidAccess
  | InvalidFree
  | AssertFailed
  | SignedOverflow
  | FloatToIntUndefined

section \<open>The store\<close>

text \<open>
  Memory is a byte store. \<open>blocks\<close> lists the live allocations (base address and
  length in bytes); an access is defined when it lies inside one of them.
  \<open>errlog\<close> collects what \<^verbatim>\<open>log_error\<close> prints.
\<close>

record heap =
  mem :: "addr \<Rightarrow> byte"
  blocks :: "(addr \<times> nat) list"
  errlog :: "string list"

definition in_block :: "addr \<Rightarrow> nat \<Rightarrow> addr \<times> nat \<Rightarrow> bool" where
  "in_block p n blk = (unat (p - fst blk) + n \<le> snd blk)"

definition valid :: "heap \<Rightarrow> addr \<Rightarrow> nat \<Rightarrow> bool" where
  "valid h p n = list_ex (in_block p n) (blocks h)"

text \<open>An \<^verbatim>\<open>int\<close> in memory: four bytes, least significant first.\<close>

definition le32 :: "byte \<Rightarrow> byte \<Rightarrow> byte \<Rightarrow> byte \<Rightarrow> cint" where
  "le32 b0 b1 b2 b3 =
     ucast b0 OR push_bit 8 (ucast b1) OR push_bit 16 (ucast b2) OR push_bit 24 (ucast b3)"

definition byte_of :: "cint \<Rightarrow> nat \<Rightarrow> byte" where
  "byte_of v i = ucast (drop_bit (8 * i) v)"

definition load32 :: "heap \<Rightarrow> addr \<Rightarrow> fault + cint" where
  "load32 h p =
     (if valid h p 4
      then Inr (le32 (mem h p) (mem h (p + 1)) (mem h (p + 2)) (mem h (p + 3)))
      else Inl InvalidAccess)"

definition store32 :: "heap \<Rightarrow> addr \<Rightarrow> cint \<Rightarrow> fault + heap" where
  "store32 h p v =
     (if valid h p 4
      then Inr (h\<lparr>mem := (mem h)
             (p := byte_of v 0, p + 1 := byte_of v 1, p + 2 := byte_of v 2, p + 3 := byte_of v 3)\<rparr>)
      else Inl InvalidAccess)"

text \<open>
  \<^verbatim>\<open>memset(p, v, n)\<close>: the \<open>n\<close> bytes from \<open>p\<close> on are the addresses \<open>a\<close> with
  \<open>unat (a - p) < n\<close>.
\<close>

definition memset :: "heap \<Rightarrow> addr \<Rightarrow> byte \<Rightarrow> nat \<Rightarrow> fault + heap" where
  "memset h p v n =
     (if valid h p n
      then Inr (h\<lparr>mem := (\<lambda>a. if unat (a - p) < n then v else mem h a)\<rparr>)
      else Inl InvalidAccess)"

text \<open>
  \<^verbatim>\<open>posix_memalign(&buf, alignment, size)\<close> is the C library's. Which address it
  hands out, or that it fails, is the environment's choice and an argument of the model.
  POSIX: it returns 0 on success and stores the address; on failure it returns an error
  number, \<^verbatim>\<open>EINVAL\<close> or \<^verbatim>\<open>ENOMEM\<close> (both positive), and \<^verbatim>\<open>buf\<close> keeps the value it
  had (\<open>old\<close>).
\<close>

datatype memalign_error = EINVAL | ENOMEM

fun errno_of :: "memalign_error \<Rightarrow> cint" where
  "errno_of EINVAL = 22"
| "errno_of ENOMEM = 12"

datatype memalign_outcome = Allocated addr | Failed memalign_error

definition posix_memalign ::
  "memalign_outcome \<Rightarrow> heap \<Rightarrow> addr \<Rightarrow> size_t \<Rightarrow> size_t \<Rightarrow> cint \<times> addr \<times> heap" where
  "posix_memalign out h old alignment sz =
     (case out of
        Allocated p \<Rightarrow> (0, p, h\<lparr>blocks := (p, unat sz) # blocks h\<rparr>)
      | Failed e \<Rightarrow> (errno_of e, old, h))"

text \<open>
  The addresses the allocator may hand out for \<open>n\<close> bytes: not null, a multiple of the
  alignment, apart from every live allocation, and with the address one past the
  allocation still inside the address space (C compares that pointer with the ones into
  the allocation, so it cannot wrap around to the null pointer).
\<close>

definition apart :: "addr \<Rightarrow> nat \<Rightarrow> addr \<times> nat \<Rightarrow> bool" where
  "apart p n blk =
     ((unat p + n \<le> unat (fst blk) \<or> unat (fst blk) + snd blk \<le> unat p) \<and> p \<noteq> fst blk)"

definition memalign_fresh :: "heap \<Rightarrow> nat \<Rightarrow> addr \<Rightarrow> nat \<Rightarrow> bool" where
  "memalign_fresh h alignment p n =
     (p \<noteq> 0 \<and> unat p mod alignment = 0 \<and> unat p + n < 2 ^ 64 \<and> list_all (apart p n) (blocks h))"

text \<open>
  \<^verbatim>\<open>free(p)\<close>: nothing for the null pointer, the end of the allocation based at \<open>p\<close>
  otherwise; undefined when no live allocation starts at \<open>p\<close>.
\<close>

definition free :: "heap \<Rightarrow> addr \<Rightarrow> fault + heap" where
  "free h p =
     (if p = 0 then Inr h
      else case map_of (blocks h) p of
             None \<Rightarrow> Inl InvalidFree
           | Some n \<Rightarrow> Inr (h\<lparr>blocks := filter (\<lambda>blk. fst blk \<noteq> p) (blocks h)\<rparr>))"

definition log_error :: "string \<Rightarrow> heap \<Rightarrow> heap" where
  "log_error msg h = h\<lparr>errlog := errlog h @ [msg]\<rparr>"

section \<open>Declarations the helpers take from their headers\<close>

text \<open>
  \<^verbatim>\<open>erasurecode_helpers.c\<close> includes \<^verbatim>\<open>erasurecode_backend.h\<close>,
  \<^verbatim>\<open>erasurecode_helpers.h\<close> and \<^verbatim>\<open>erasurecode_stdinc.h\<close>, which are not among the
  sources. The constants it takes from them, \<^verbatim>\<open>sizeof(fragment_header_t)\<close>,
  \<^verbatim>\<open>LIBERASURECODE_FRAG_HEADER_MAGIC\<close> and the enumerator
  \<^verbatim>\<open>EC_BACKEND_JERASURE_RS_CAUCHY\<close>, are parameters of every function that uses them.
\<close>

record cdecls =
  sizeof_fragment_header_t :: size_t
  LIBERASURECODE_FRAG_HEADER_MAGIC :: cint
  EC_BACKEND_JERASURE_RS_CAUCHY :: cint

text \<open>
  Modelled from the spec: \<^verbatim>\<open>struct ec_backend\<close> is declared in the missing headers.
  \<^verbatim>\<open>get_aligned_data_size\<close> reads \<^verbatim>\<open>instance->args.uargs.k\<close>, \<^verbatim>\<open>.m\<close>, \<^verbatim>\<open>.w\<close>
  into \<^verbatim>\<open>int\<close>s and compares \<^verbatim>\<open>instance->common.id\<close> with the enumerator; the spec
  (section 4.4) names them k, m, w and the backend identifier. The model passes the
  structure the pointer \<^verbatim>\<open>instance\<close> designates.
\<close>

record ec_backend =
  uargs_k :: cint
  uargs_m :: cint
  uargs_w :: cint
  common_id :: cint

text \<open>
  Modelled from the spec: the declaration of \<^verbatim>\<open>fragment_header_t\<close> is missing. The
  spec (sections 3 and 6) lays the header out as the fields magic, idx, size,
  orig_data_size, chksum in this order, each an integer; the accessors of the source
  write and read each of them as an \<^verbatim>\<open>int\<close>. The offsets of the fields in bytes:
\<close>

definition magic_off :: size_t where "magic_off = 0"
definition idx_off :: size_t where "idx_off = 4"
definition size_off :: size_t where "size_off = 8"
definition orig_data_size_off :: size_t where "orig_data_size_off = 12"
definition chksum_off :: size_t where "chksum_off = 16"

text \<open>The header fits its five fields.\<close>

definition wf_decls :: "cdecls \<Rightarrow> bool" where
  "wf_decls D = (20 \<le> unat (sizeof_fragment_header_t D))"

section \<open>Memory management methods\<close>

text \<open>
  \<^verbatim>\<open>get_aligned_buffer16\<close>: \<open>junk\<close> is the value the uninitialised local \<^verbatim>\<open>buf\<close>
  holds before the call of \<^verbatim>\<open>posix_memalign\<close>.
\<close>

definition get_aligned_buffer16 ::
  "memalign_outcome \<Rightarrow> addr \<Rightarrow> heap \<Rightarrow> cint \<Rightarrow> fault + (addr \<times> heap)" where
  "get_aligned_buffer16 out junk h sz =
     (case posix_memalign out h junk 16 (scast sz) of
        (rc, buf, h1) \<Rightarrow>
          if rc <s 0 then Inr (0, h1)
          else (case memset h1 buf 0 (unat (scast sz :: size_t)) of
                  Inl f \<Rightarrow> Inl f
                | Inr h2 \<Rightarrow> Inr (buf, h2)))"

definition alloc_fragment_buffer ::
  "cdecls \<Rightarrow> memalign_outcome \<Rightarrow> addr \<Rightarrow> heap \<Rightarrow> cint \<Rightarrow> fault + (addr \<times> heap)" where
  "alloc_fragment_buffer D out junk h sz =
     (let sz' = (ucast ((scast sz :: size_t) + sizeof_fragment_header_t D) :: cint) in
      case get_aligned_buffer16 out junk h sz' of
        Inl f \<Rightarrow> Inl f
      | Inr (buf, h1) \<Rightarrow>
          if buf \<noteq> 0
          then (case store32 h1 (buf + magic_off) (LIBERASURECODE_FRAG_HEADER_MAGIC D) of
                  Inl f \<Rightarrow> Inl f
                | Inr h2 \<Rightarrow> Inr (buf, h2))
          else Inr (buf, h1))"

definition free_fragment_buffer :: "cdecls \<Rightarrow> heap \<Rightarrow> addr \<Rightarrow> fault + (cint \<times> heap)" where
  "free_fragment_buffer D h buf =
     (if buf = 0 then Inr (- 1, h)
      else
        let buf' = buf - sizeof_fragment_header_t D in
        case load32 h (buf' + magic_off) of
          Inl f \<Rightarrow> Inl f
        | Inr magic \<Rightarrow>
            if magic \<noteq> LIBERASURECODE_FRAG_HEADER_MAGIC D
            then Inr (- 1, log_error ''Invalid fragment header (free fragment)!'' h)
            else (case free h buf' of
                    Inl f \<Rightarrow> Inl f
                  | Inr h' \<Rightarrow> Inr (0, h')))"

section \<open>Fragment size and aligned data size\<close>

definition get_fragment_size :: "cdecls \<Rightarrow> heap \<Rightarrow> addr \<Rightarrow> fault + 64 word" where
  "get_fragment_size D h buf =
     (if buf = 0 then Inr (- 1)
      else case load32 h (buf + size_off) of
             Inl f \<Rightarrow> Inl f
           | Inr sz \<Rightarrow> Inr (scast sz + sizeof_fragment_header_t D))"

text \<open>The values an \<^verbatim>\<open>int\<close> holds; \<^verbatim>\<open>sizeof(long)\<close> on LP64.\<close>

definition int_range :: "int \<Rightarrow> bool" where
  "int_range x = (- (2 ^ 31) \<le> x \<and> x < 2 ^ 31)"

definition sizeof_long :: int where
  "sizeof_long = 8"

text \<open>
  \<^verbatim>\<open>get_aligned_data_size\<close> computes on the values of its \<^verbatim>\<open>int\<close>s, each operation as C
  defines it:
  \<^item> \<^verbatim>\<open>w / 8\<close> truncates towards zero (\<open>sdiv\<close>);
  \<^item> \<^verbatim>\<open>k * w\<close> and \<^verbatim>\<open>k * word_size\<close> are \<^verbatim>\<open>int\<close> products: undefined on overflow;
  \<^item> \<^verbatim>\<open>k * w * (sizeof(long) * 128)\<close> is the \<^verbatim>\<open>int\<close> product \<^verbatim>\<open>k * w\<close> converted to
    \<^verbatim>\<open>size_t\<close>, multiplied modulo \<open>2 ^ 64\<close>, and stored in an \<^verbatim>\<open>int\<close>, which keeps
    the low 32 bits in two's complement (\<open>signed_take_bit 31\<close>);
  \<^item> \<^verbatim>\<open>(double) data_len / alignment_multiple\<close> divides two values a \<^verbatim>\<open>double\<close> holds
    exactly. For a zero divisor the quotient is an infinity or a NaN, which \<^verbatim>\<open>(int)\<close>
    cannot convert. Otherwise a quotient that is not a whole number is more than a
    rounding error away from the next whole number, so \<^verbatim>\<open>ceill\<close> of the rounded
    quotient is the ceiling of the exact one: the model divides in the reals;
  \<^item> the cast \<^verbatim>\<open>(int)\<close> binds tighter than \<^verbatim>\<open>*\<close>: the ceiling is converted to
    \<^verbatim>\<open>int\<close> (undefined when out of range) and the product is an \<^verbatim>\<open>int\<close> product.
\<close>

definition get_aligned_data_size :: "cdecls \<Rightarrow> ec_backend \<Rightarrow> cint \<Rightarrow> fault + cint" where
  "get_aligned_data_size D instance data_len =
     (let k = sint (uargs_k instance);
          m = sint (uargs_m instance);
          w = sint (uargs_w instance);
          word_size = w sdiv 8
      in
      case (if EC_BACKEND_JERASURE_RS_CAUCHY D = common_id instance
            then (if int_range (k * w)
                  then Inr (signed_take_bit 31 (k * w * (sizeof_long * 128)))
                  else Inl SignedOverflow)
            else (if int_range (k * word_size)
                  then Inr (k * word_size)
                  else Inl SignedOverflow)) of
        Inl f \<Rightarrow> Inl f
      | Inr alignment_multiple \<Rightarrow>
          if alignment_multiple = 0 then Inl FloatToIntUndefined
          else
            let q = \<lceil>real_of_int (sint data_len) / real_of_int alignment_multiple\<rceil> in
            if \<not> int_range q then Inl FloatToIntUndefined
            else if \<not> int_range (q * alignment_multiple) then Inl SignedOverflow
            else Inr (word_of_int (q * alignment_multiple)))"

section \<open>Fragment pointer and data pointer\<close>

definition get_data_ptr_from_fragment :: "cdecls \<Rightarrow> addr \<Rightarrow> addr" where
  "get_data_ptr_from_fragment D buf = buf + sizeof_fragment_header_t D"

text \<open>
  \<^verbatim>\<open>get_data_ptr_array_from_fragments\<close>: the two arrays are distinct objects, each a
  list of pointers; an index outside an array is an invalid access. The loop runs \<open>i\<close>
  from 0 while \<^verbatim>\<open>i < num_fragments\<close>; \<open>i\<close> and \<open>num\<close> never exceed
  \<^verbatim>\<open>num_fragments\<close>, so they are natural numbers here.
\<close>

function get_data_ptr_array_loop ::
  "cdecls \<Rightarrow> addr list \<Rightarrow> addr list \<Rightarrow> cint \<Rightarrow> nat \<Rightarrow> nat \<Rightarrow> fault + (nat \<times> addr list)" where
  "get_data_ptr_array_loop D data_array fragments num_fragments i num =
     (if int i < sint num_fragments then
        if length fragments \<le> i then Inl InvalidAccess
        else if length data_array \<le> i then Inl InvalidAccess
        else if fragments ! i = 0
        then get_data_ptr_array_loop D (data_array[i := 0]) fragments num_fragments (Suc i) num
        else get_data_ptr_array_loop D
               (data_array[i := get_data_ptr_from_fragment D (fragments ! i)])
               fragments num_fragments (Suc i) (Suc num)
      else Inr (num, data_array))"
  by pat_completeness auto
termination
  by (relation "measure (\<lambda>(D, d, f, n, i, num). nat (sint n) - i)") auto

declare get_data_ptr_array_loop.simps [simp del]

definition get_data_ptr_array_from_fragments ::
  "cdecls \<Rightarrow> addr list \<Rightarrow> addr list \<Rightarrow> cint \<Rightarrow> fault + (cint \<times> addr list)" where
  "get_data_ptr_array_from_fragments D data_array fragments num_fragments =
     (case get_data_ptr_array_loop D data_array fragments num_fragments 0 0 of
        Inl f \<Rightarrow> Inl f
      | Inr (num, data_array') \<Rightarrow> Inr (of_nat num, data_array'))"

definition get_fragment_ptr_from_data_novalidate :: "cdecls \<Rightarrow> addr \<Rightarrow> addr" where
  "get_fragment_ptr_from_data_novalidate D buf = buf - sizeof_fragment_header_t D"

definition get_fragment_ptr_from_data :: "cdecls \<Rightarrow> heap \<Rightarrow> addr \<Rightarrow> fault + (addr \<times> heap)" where
  "get_fragment_ptr_from_data D h buf =
     (let buf' = buf - sizeof_fragment_header_t D in
      case load32 h (buf' + magic_off) of
        Inl f \<Rightarrow> Inl f
      | Inr magic \<Rightarrow>
          if magic \<noteq> LIBERASURECODE_FRAG_HEADER_MAGIC D
          then Inr (0, log_error (''Invalid fragment header (get header ptr)!'' @ [CHR 0x0A]) h)
          else Inr (buf', h))"

section \<open>Header accessors\<close>

text \<open>
  Every accessor asserts that its pointer is not null (a failed \<^verbatim>\<open>assert\<close> aborts),
  reads the magic field, and on a mismatch logs and returns -1.
\<close>

definition set_fragment_idx :: "cdecls \<Rightarrow> heap \<Rightarrow> addr \<Rightarrow> cint \<Rightarrow> fault + (cint \<times> heap)" where
  "set_fragment_idx D h buf idx =
     (if buf = 0 then Inl AssertFailed
      else case load32 h (buf + magic_off) of
        Inl f \<Rightarrow> Inl f
      | Inr magic \<Rightarrow>
          if magic \<noteq> LIBERASURECODE_FRAG_HEADER_MAGIC D
          then Inr (- 1, log_error (''Invalid fragment header (idx check)!'' @ [CHR 0x0A]) h)
          else (case store32 h (buf + idx_off) idx of
                  Inl f \<Rightarrow> Inl f
                | Inr h' \<Rightarrow> Inr (0, h')))"

definition get_fragment_idx :: "cdecls \<Rightarrow> heap \<Rightarrow> addr \<Rightarrow> fault + (cint \<times> heap)" where
  "get_fragment_idx D h buf =
     (if buf = 0 then Inl AssertFailed
      else case load32 h (buf + magic_off) of
        Inl f \<Rightarrow> Inl f
      | Inr magic \<Rightarrow>
          if magic \<noteq> LIBERASURECODE_FRAG_HEADER_MAGIC D
          then Inr (- 1, log_error ''Invalid fragment header (get idx)!'' h)
          else (case load32 h (buf + idx_off) of
                  Inl f \<Rightarrow> Inl f
                | Inr v \<Rightarrow> Inr (v, h)))"

definition set_fragment_payload_size ::
  "cdecls \<Rightarrow> heap \<Rightarrow> addr \<Rightarrow> cint \<Rightarrow> fault + (cint \<times> heap)" where
  "set_fragment_payload_size D h buf sz =
     (if buf = 0 then Inl AssertFailed
      else case load32 h (buf + magic_off) of
        Inl f \<Rightarrow> Inl f
      | Inr magic \<Rightarrow>
          if magic \<noteq> LIBERASURECODE_FRAG_HEADER_MAGIC D
          then Inr (- 1, log_error ''Invalid fragment header (size check)!'' h)
          else (case store32 h (buf + size_off) sz of
                  Inl f \<Rightarrow> Inl f
                | Inr h' \<Rightarrow> Inr (0, h')))"

definition get_fragment_payload_size :: "cdecls \<Rightarrow> heap \<Rightarrow> addr \<Rightarrow> fault + (cint \<times> heap)" where
  "get_fragment_payload_size D h buf =
     (if buf = 0 then Inl AssertFailed
      else case load32 h (buf + magic_off) of
        Inl f \<Rightarrow> Inl f
      | Inr magic \<Rightarrow>
          if magic \<noteq> LIBERASURECODE_FRAG_HEADER_MAGIC D
          then Inr (- 1, log_error ''Invalid fragment header (get size)!'' h)
          else (case load32 h (buf + size_off) of
                  Inl f \<Rightarrow> Inl f
                | Inr v \<Rightarrow> Inr (v, h)))"

definition set_orig_data_size :: "cdecls \<Rightarrow> heap \<Rightarrow> addr \<Rightarrow> cint \<Rightarrow> fault + (cint \<times> heap)" where
  "set_orig_data_size D h buf orig_data_size =
     (if buf = 0 then Inl AssertFailed
      else case load32 h (buf + magic_off) of
        Inl f \<Rightarrow> Inl f
      | Inr magic \<Rightarrow>
          if magic \<noteq> LIBERASURECODE_FRAG_HEADER_MAGIC D
          then Inr (- 1, log_error ''Invalid fragment header (set orig data check)!'' h)
          else (case store32 h (buf + orig_data_size_off) orig_data_size of
                  Inl f \<Rightarrow> Inl f
                | Inr h' \<Rightarrow> Inr (0, h')))"

definition get_orig_data_size :: "cdecls \<Rightarrow> heap \<Rightarrow> addr \<Rightarrow> fault + (cint \<times> heap)" where
  "get_orig_data_size D h buf =
     (if buf = 0 then Inl AssertFailed
      else case load32 h (buf + magic_off) of
        Inl f \<Rightarrow> Inl f
      | Inr magic \<Rightarrow>
          if magic \<noteq> LIBERASURECODE_FRAG_HEADER_MAGIC D
          then Inr (- 1, log_error ''Invalid fragment header (get orig data check)!'' h)
          else (case load32 h (buf + orig_data_size_off) of
                  Inl f \<Rightarrow> Inl f
                | Inr v \<Rightarrow> Inr (v, h)))"

definition validate_fragment :: "cdecls \<Rightarrow> heap \<Rightarrow> addr \<Rightarrow> fault + cint" where
  "validate_fragment D h buf =
     (if buf = 0 then Inl AssertFailed
      else case load32 h (buf + magic_off) of
        Inl f \<Rightarrow> Inl f
      | Inr magic \<Rightarrow>
          if magic \<noteq> LIBERASURECODE_FRAG_HEADER_MAGIC D then Inr (- 1) else Inr 0)"

definition set_chksum :: "cdecls \<Rightarrow> heap \<Rightarrow> addr \<Rightarrow> cint \<Rightarrow> fault + (cint \<times> heap)" where
  "set_chksum D h buf chksum =
     (if buf = 0 then Inl AssertFailed
      else case load32 h (buf + magic_off) of
        Inl f \<Rightarrow> Inl f
      | Inr magic \<Rightarrow>
          if magic \<noteq> LIBERASURECODE_FRAG_HEADER_MAGIC D
          then Inr (- 1, log_error (''Invalid fragment header (set chksum)!'' @ [CHR 0x0A]) h)
          else (case store32 h (buf + chksum_off) chksum of
                  Inl f \<Rightarrow> Inl f
                | Inr h' \<Rightarrow> Inr (0, h')))"

definition get_chksum :: "cdecls \<Rightarrow> heap \<Rightarrow> addr \<Rightarrow> fault + (cint \<times> heap)" where
  "get_chksum D h buf =
     (if buf = 0 then Inl AssertFailed
      else case load32 h (buf + magic_off) of
        Inl f \<Rightarrow> Inl f
      | Inr magic \<Rightarrow>
          if magic \<noteq> LIBERASURECODE_FRAG_HEADER_MAGIC D
          then Inr (- 1, log_error ''Invalid fragment header (get chksum)!'' h)
          else (case load32 h (buf + chksum_off) of
                  Inl f \<Rightarrow> Inl f
                | Inr v \<Rightarrow> Inr (v, h)))"

section \<open>Fragment buffers, and the stores the examples run on\<close>

text \<open>
  A fragment buffer at \<open>buf\<close>: a non-null pointer to a header that lies in a live
  allocation and whose magic field holds the sentinel.
\<close>

definition fragment_buffer :: "cdecls \<Rightarrow> heap \<Rightarrow> addr \<Rightarrow> bool" where
  "fragment_buffer D h buf =
     (buf \<noteq> 0 \<and> valid h buf (unat (sizeof_fragment_header_t D)) \<and>
      load32 h (buf + magic_off) = Inr (LIBERASURECODE_FRAG_HEADER_MAGIC D))"

text \<open>
  Values for the parameters, used where a statement is run on a concrete input: a
  header of 32 bytes, the sentinel \<open>0xb0c5ecc\<close>, the enumerator 2.
\<close>

definition ex_decls :: cdecls where
  "ex_decls = \<lparr>sizeof_fragment_header_t = 32, LIBERASURECODE_FRAG_HEADER_MAGIC = 0xb0c5ecc,
               EC_BACKEND_JERASURE_RS_CAUCHY = 2\<rparr>"

text \<open>The store with no allocation, and all memory zero.\<close>

definition empty_heap :: heap where
  "empty_heap = \<lparr>mem = (\<lambda>_. 0), blocks = [], errlog = []\<rparr>"

text \<open>
  One live allocation of 40 bytes at \<open>0x1000\<close>: a header with the sentinel (least
  significant byte first), every other byte zero. It is the store that
  \<^verbatim>\<open>alloc_fragment_buffer(8)\<close> leaves when the allocator hands out \<open>0x1000\<close> in the
  empty store.
\<close>

definition ex_heap :: heap where
  "ex_heap = \<lparr>mem = (\<lambda>_. 0)(0x1000 := 0xcc, 0x1001 := 0x5e, 0x1002 := 0x0c, 0x1003 := 0x0b),
              blocks = [(0x1000, 40)], errlog = []\<rparr>"

text \<open>
  The same allocation with the lowest byte of the sentinel altered and the size field
  set to 5.
\<close>

definition tampered_heap :: heap where
  "tampered_heap =
     \<lparr>mem = (\<lambda>_. 0)(0x1000 := 0xcd, 0x1001 := 0x5e, 0x1002 := 0x0c, 0x1003 := 0x0b, 0x1008 := 5),
      blocks = [(0x1000, 40)], errlog = []\<rparr>"

text \<open>A live allocation of 16 bytes at \<open>0x2000\<close> that holds data (every byte \<open>0xFF\<close>).\<close>

definition victim_heap :: heap where
  "victim_heap = \<lparr>mem = (\<lambda>_. 0xFF), blocks = [(0x2000, 16)], errlog = []\<rparr>"

text \<open>The same allocation with its 16 bytes zeroed.\<close>

definition zeroed_victim_heap :: heap where
  "zeroed_victim_heap =
     \<lparr>mem = (\<lambda>a. if unat (a - 0x2000) < 16 then 0 else 0xFF),
      blocks = [(0x2000, 16)], errlog = []\<rparr>"

text \<open>
  A fragment buffer of payload size 0 at \<open>0x1000\<close> (32 bytes), and the store with a
  second one right behind it at \<open>0x1020\<close>.
\<close>

definition first_fragment :: heap where
  "first_fragment =
     \<lparr>mem = (\<lambda>_. 0)(0x1000 := 0xcc, 0x1001 := 0x5e, 0x1002 := 0x0c, 0x1003 := 0x0b),
      blocks = [(0x1000, 32)], errlog = []\<rparr>"

definition two_fragments :: heap where
  "two_fragments =
     \<lparr>mem = (\<lambda>_. 0)(0x1000 := 0xcc, 0x1001 := 0x5e, 0x1002 := 0x0c, 0x1003 := 0x0b,
                     0x1020 := 0xcc, 0x1021 := 0x5e, 0x1022 := 0x0c, 0x1023 := 0x0b),
      blocks = [(0x1020, 32), (0x1000, 32)], errlog = []\<rparr>"

text \<open>The two buffers again, the lowest byte of the second sentinel altered.\<close>

definition two_fragments_tampered :: heap where
  "two_fragments_tampered =
     \<lparr>mem = (\<lambda>_. 0)(0x1000 := 0xcc, 0x1001 := 0x5e, 0x1002 := 0x0c, 0x1003 := 0x0b,
                     0x1020 := 0xcd, 0x1021 := 0x5e, 0x1022 := 0x0c, 0x1023 := 0x0b),
      blocks = [(0x1020, 32), (0x1000, 32)], errlog = []\<rparr>"

text \<open>
  The number of bytes \<^verbatim>\<open>alloc_fragment_buffer\<close> asks the allocator for: the sum is taken
  in \<^verbatim>\<open>size_t\<close>, stored in the \<^verbatim>\<open>int\<close> \<^verbatim>\<open>size\<close>, and converted to \<^verbatim>\<open>size_t\<close> again.
\<close>

definition fragment_alloc_size :: "cdecls \<Rightarrow> cint \<Rightarrow> nat" where
  "fragment_alloc_size D sz =
     unat (scast (ucast ((scast sz :: size_t) + sizeof_fragment_header_t D) :: cint) :: size_t)"

text \<open>
  The granularity as the specification words it (section 4.4): \<open>k * w *
  (machine-word-bytes * 128)\<close> for the Cauchy backend, \<open>k * word_size\<close> with
  \<open>word_size = w / 8\<close> for every other one; the division is the one of C.
\<close>

definition granularity :: "cdecls \<Rightarrow> ec_backend \<Rightarrow> int" where
  "granularity D instance =
     (if common_id instance = EC_BACKEND_JERASURE_RS_CAUCHY D
      then sint (uargs_k instance) * sint (uargs_w instance) * (sizeof_long * 128)
      else sint (uargs_k instance) * (sint (uargs_w instance) sdiv 8))"

section \<open>Facts about the store\<close>

lemma le32_byte_of: "le32 (byte_of v 0) (byte_of v 1) (byte_of v 2) (byte_of v 3) = v"
  unfolding le32_def byte_of_def
proof (rule bit_word_eqI)
  fix n :: nat
  assume "n < LENGTH(32)"
  then have n: "n < 32" by simp
  consider "n < 8" | "8 \<le> n" "n < 16" | "16 \<le> n" "n < 24" | "24 \<le> n" "n < 32"
    using n by linarith
  then show "bit (ucast (ucast (drop_bit (8 * 0) v) :: byte) OR
                  push_bit 8 (ucast (ucast (drop_bit (8 * 1) v) :: byte)) OR
                  push_bit 16 (ucast (ucast (drop_bit (8 * 2) v) :: byte)) OR
                  push_bit 24 (ucast (ucast (drop_bit (8 * 3) v) :: byte)) :: cint) n = bit v n"
    by cases (auto simp add: bit_simps)
qed

lemma valid_sub:
  assumes "valid h p n" and "unat d + k \<le> n"
  shows "valid h (p + d) k"
proof -
  from assms(1) obtain blk where b: "blk \<in> set (blocks h)" "unat (p - fst blk) + n \<le> snd blk"
    by (auto simp: valid_def list_ex_iff in_block_def)
  have "unat (p + d - fst blk) = unat ((p - fst blk) + d)"
    by (simp add: algebra_simps)
  also have "\<dots> \<le> unat (p - fst blk) + unat d"
    by (simp add: unat_word_ariths)
  finally have "unat (p + d - fst blk) + k \<le> snd blk"
    using b(2) assms(2) by linarith
  with b(1) show ?thesis
    by (auto simp: valid_def list_ex_iff in_block_def)
qed

lemma valid_mem_update [simp]: "valid (h\<lparr>mem := m\<rparr>) p n = valid h p n"
  by (simp add: valid_def)

lemma valid_log_error [simp]: "valid (log_error msg h) p n = valid h p n"
  by (simp add: valid_def log_error_def)

lemma store32_Inr:
  "valid h p 4 \<Longrightarrow> \<exists>h'. store32 h p v = Inr h' \<and> blocks h' = blocks h \<and> errlog h' = errlog h"
  by (simp add: store32_def)

lemma load32_store32_same:
  assumes "store32 h p v = Inr h'"
  shows "load32 h' p = Inr v"
proof -
  from assms have v: "valid h p 4" and h': "h' = h\<lparr>mem := (mem h)
             (p := byte_of v 0, p + 1 := byte_of v 1, p + 2 := byte_of v 2, p + 3 := byte_of v 3)\<rparr>"
    by (auto simp add: store32_def split: if_splits)
  show ?thesis
    using le32_byte_of [of v] by (simp add: load32_def h' v)
qed

text \<open>Two \<^verbatim>\<open>int\<close>s at least four bytes apart share no byte.\<close>

lemma word_off_neq:
  fixes p q :: addr
  assumes "4 \<le> unat (q - p)" and "4 \<le> unat (p - q)" and "i < 4" and "j < 4"
  shows "q + of_nat i \<noteq> p + of_nat j"
proof
  assume "q + of_nat i = p + of_nat j"
  then have e: "q - p = of_nat j - of_nat i"
    by (simp add: algebra_simps)
  show False
  proof (cases "i \<le> j")
    case True
    then have "q - p = of_nat (j - i)" using e by simp
    then have "unat (q - p) = j - i" using assms(4) by (simp add: unat_of_nat)
    with assms show False by simp
  next
    case False
    then have "p - q = of_nat (i - j)" using e
      by (metis minus_diff_eq nat_le_linear of_nat_diff)
    then have "unat (p - q) = i - j" using assms(3) by (simp add: unat_of_nat)
    with assms show False by simp
  qed
qed

lemma load32_store32_other:
  assumes "store32 h p v = Inr h'" and "4 \<le> unat (q - p)" and "4 \<le> unat (p - q)"
  shows "load32 h' q = load32 h q"
proof -
  from assms have h': "h' = h\<lparr>mem := (mem h)
             (p := byte_of v 0, p + 1 := byte_of v 1, p + 2 := byte_of v 2, p + 3 := byte_of v 3)\<rparr>"
    by (auto simp add: store32_def split: if_splits)
  have n: "q + of_nat i \<noteq> p + of_nat j" if "i < 4" "j < 4" for i j
    using word_off_neq [OF assms(2,3) that] .
  have "q \<noteq> p" "q \<noteq> p + 1" "q \<noteq> p + 2" "q \<noteq> p + 3"
       "q + 1 \<noteq> p" "q + 1 \<noteq> p + 1" "q + 1 \<noteq> p + 2" "q + 1 \<noteq> p + 3"
       "q + 2 \<noteq> p" "q + 2 \<noteq> p + 1" "q + 2 \<noteq> p + 2" "q + 2 \<noteq> p + 3"
       "q + 3 \<noteq> p" "q + 3 \<noteq> p + 1" "q + 3 \<noteq> p + 2" "q + 3 \<noteq> p + 3"
    using n [of 0 0] n [of 0 1] n [of 0 2] n [of 0 3]
          n [of 1 0] n [of 1 1] n [of 1 2] n [of 1 3]
          n [of 2 0] n [of 2 1] n [of 2 2] n [of 2 3]
          n [of 3 0] n [of 3 1] n [of 3 2] n [of 3 3]
    by simp_all
  then show ?thesis
    by (simp add: load32_def h')
qed

lemma sint32_lt: "sint (x :: cint) < 2147483648"
  using sint_lt [of x] by simp

lemma sint32_ge: "- 2147483648 \<le> sint (x :: cint)"
  using sint_ge [of x] by simp

lemma unat_scast_nonneg:
  fixes x :: cint
  assumes "0 \<le> sint x"
  shows "unat (scast x :: size_t) = nat (sint x)"
proof -
  have "sint x < 18446744073709551616"
    using sint32_lt [of x] by linarith
  then have m: "sint x mod 18446744073709551616 = sint x"
    using assms by simp
  have "(scast x :: size_t) = word_of_int (sint x)" by simp
  then have "uint (scast x :: size_t) = sint x mod 2 ^ 64"
    by (simp only: uint_word_of_int) simp
  also have "\<dots> = sint x" using m by simp
  finally show ?thesis by (simp add: unat_eq_nat_uint)
qed

lemma sint_word_of_int32:
  assumes "- 2147483648 \<le> k" and "k < 2147483648"
  shows "sint (word_of_int k :: cint) = k"
proof -
  have "signed_take_bit 31 k = k"
    using assms by (intro signed_take_bit_int_eq_self) simp_all
  then show ?thesis by (simp add: sint_sbintrunc')
qed

lemma fragment_alloc_size_eq:
  assumes a: "0 \<le> sint sz" and b: "sint sz + uint (sizeof_fragment_header_t D) < 2147483648"
  shows "fragment_alloc_size D sz = nat (sint sz) + unat (sizeof_fragment_header_t D)"
proof -
  define n where "n = nat (sint sz) + unat (sizeof_fragment_header_t D)"
  define t where "t = (scast sz :: size_t) + sizeof_fragment_header_t D"
  define c :: cint where "c = ucast t"
  have "unat (sizeof_fragment_header_t D) = nat (uint (sizeof_fragment_header_t D))"
    by (rule unat_eq_nat_uint)
  moreover have "0 \<le> uint (sizeof_fragment_header_t D)"
    by simp
  ultimately have n: "n < 2147483648"
    unfolding n_def using a b by linarith
  then have "n < 18446744073709551616" by linarith
  then have t: "unat t = n"
    using unat_scast_nonneg [OF a] by (simp add: unat_word_ariths t_def n_def)
  have "c = word_of_int (uint t)"
    unfolding c_def by (rule ucast_eq)
  also have "uint t = int (unat t)"
    by (rule uint_nat)
  finally have "c = word_of_int (int n)"
    by (simp only: t)
  moreover have "sint (word_of_int (int n) :: cint) = int n"
    using n by (intro sint_word_of_int32) linarith+
  ultimately have s: "sint c = int n" by (simp only:)
  then have "0 \<le> sint c" by linarith
  then have "unat (scast c :: size_t) = nat (sint c)"
    by (rule unat_scast_nonneg)
  then have "unat (scast c :: size_t) = n" using s by linarith
  then show ?thesis
    by (simp only: fragment_alloc_size_def c_def t_def n_def)
qed

lemma magic_bytes:
  "byte_of 0xb0c5ecc 0 = 0xcc" "byte_of 0xb0c5ecc (Suc 0) = 0x5e"
  "byte_of 0xb0c5ecc 2 = 0x0c" "byte_of 0xb0c5ecc 3 = 0x0b"
  by (simp_all add: byte_of_def)

lemma ex_decls_wf: "wf_decls ex_decls"
  by (simp add: wf_decls_def ex_decls_def)

lemma ex_heap_fragment_buffer: "fragment_buffer ex_decls ex_heap 0x1000"
  by (simp add: ex_decls_def fragment_buffer_def ex_heap_def valid_def in_block_def
      load32_def le32_def magic_off_def)

section \<open>Round trip through the header accessors\<close>

lemma field_valid:
  assumes "wf_decls D" and "fragment_buffer D h buf" and "unat off + 4 \<le> 20"
  shows "valid h (buf + off) 4"
  using assms valid_sub [of h buf "unat (sizeof_fragment_header_t D)" off 4]
  by (simp add: wf_decls_def fragment_buffer_def)

lemma set_get_field:
  assumes wf: "wf_decls D" and fb: "fragment_buffer D h buf"
    and off: "off = 4 \<or> off = 8 \<or> off = 12 \<or> off = 16"
  shows "\<exists>h1. store32 h (buf + off) v = Inr h1 \<and> load32 h1 (buf + off) = Inr v \<and>
              load32 h1 (buf + magic_off) = Inr (LIBERASURECODE_FRAG_HEADER_MAGIC D)"
proof -
  have "unat off + 4 \<le> 20" using off by auto
  then have "valid h (buf + off) 4" using field_valid [OF wf fb] by blast
  then obtain h1 where h1: "store32 h (buf + off) v = Inr h1"
    using store32_Inr by blast
  have a: "4 \<le> unat (buf + magic_off - (buf + off))"
    using off by (auto simp add: magic_off_def)
  have b: "4 \<le> unat (buf + off - (buf + magic_off))"
    using off by (auto simp add: magic_off_def)
  have "load32 h1 (buf + magic_off) = load32 h (buf + magic_off)"
    using load32_store32_other [OF h1 a b] .
  then show ?thesis
    using h1 load32_store32_same [OF h1] fb by (simp add: fragment_buffer_def)
qed

lemma store32_field_other:
  assumes st: "store32 h (buf + x) v = Inr h1"
    and x: "x = 0 \<or> x = 4 \<or> x = 8 \<or> x = 12 \<or> x = 16"
    and y: "y = 0 \<or> y = 4 \<or> y = 8 \<or> y = 12 \<or> y = 16"
    and ne: "x \<noteq> y"
  shows "load32 h1 (buf + y) = load32 h (buf + y)"
proof -
  have a: "4 \<le> unat (buf + y - (buf + x))"
    using x y ne by auto
  have b: "4 \<le> unat (buf + x - (buf + y))"
    using x y ne by auto
  show ?thesis
    using load32_store32_other [OF st a b] .
qed

lemma store32_fragment_buffer:
  assumes st: "store32 h (buf + x) v = Inr h1"
    and x: "x = 4 \<or> x = 8 \<or> x = 12 \<or> x = 16"
    and fb: "fragment_buffer D h buf"
  shows "fragment_buffer D h1 buf"
proof -
  have "load32 h1 (buf + 0) = load32 h (buf + 0)"
    using x by (intro store32_field_other [OF st]) auto
  moreover have "valid h1 buf n = valid h buf n" for n
    using st by (auto simp add: store32_def split: if_splits)
  ultimately show ?thesis
    using fb by (simp add: fragment_buffer_def magic_off_def)
qed

lemma setter_steps:
  assumes wf: "wf_decls D" and fb: "fragment_buffer D h buf"
  shows "\<exists>h1. set_fragment_idx D h buf v = Inr (0, h1) \<and> store32 h (buf + 4) v = Inr h1 \<and> fragment_buffer D h1 buf"
    and "\<exists>h1. set_fragment_payload_size D h buf v = Inr (0, h1) \<and> store32 h (buf + 8) v = Inr h1 \<and> fragment_buffer D h1 buf"
    and "\<exists>h1. set_orig_data_size D h buf v = Inr (0, h1) \<and> store32 h (buf + 12) v = Inr h1 \<and> fragment_buffer D h1 buf"
    and "\<exists>h1. set_chksum D h buf v = Inr (0, h1) \<and> store32 h (buf + 16) v = Inr h1 \<and> fragment_buffer D h1 buf"
proof -
  have nz: "buf \<noteq> 0"
    and mg: "load32 h (buf + magic_off) = Inr (LIBERASURECODE_FRAG_HEADER_MAGIC D)"
    using fb by (simp_all add: fragment_buffer_def)
  have st: "\<exists>h1. store32 h (buf + off) v = Inr h1 \<and> fragment_buffer D h1 buf"
    if "off = 4 \<or> off = 8 \<or> off = 12 \<or> off = 16" for off
  proof -
    from set_get_field [OF wf fb that, of v] obtain h1 where "store32 h (buf + off) v = Inr h1"
      by blast
    then show ?thesis using store32_fragment_buffer [OF _ that fb] by blast
  qed
  show "\<exists>h1. set_fragment_idx D h buf v = Inr (0, h1) \<and> store32 h (buf + 4) v = Inr h1 \<and> fragment_buffer D h1 buf"
    using st [of 4] nz mg by (auto simp add: set_fragment_idx_def idx_off_def)
  show "\<exists>h1. set_fragment_payload_size D h buf v = Inr (0, h1) \<and> store32 h (buf + 8) v = Inr h1 \<and> fragment_buffer D h1 buf"
    using st [of 8] nz mg by (auto simp add: set_fragment_payload_size_def size_off_def)
  show "\<exists>h1. set_orig_data_size D h buf v = Inr (0, h1) \<and> store32 h (buf + 12) v = Inr h1 \<and> fragment_buffer D h1 buf"
    using st [of 12] nz mg by (auto simp add: set_orig_data_size_def orig_data_size_off_def)
  show "\<exists>h1. set_chksum D h buf v = Inr (0, h1) \<and> store32 h (buf + 16) v = Inr h1 \<and> fragment_buffer D h1 buf"
    using st [of 16] nz mg by (auto simp add: set_chksum_def chksum_off_def)
qed

lemma getter_reads:
  assumes fb: "fragment_buffer D h buf"
  shows "load32 h (buf + 4) = Inr v \<Longrightarrow> get_fragment_idx D h buf = Inr (v, h)"
    and "load32 h (buf + 8) = Inr v \<Longrightarrow> get_fragment_payload_size D h buf = Inr (v, h)"
    and "load32 h (buf + 12) = Inr v \<Longrightarrow> get_orig_data_size D h buf = Inr (v, h)"
    and "load32 h (buf + 16) = Inr v \<Longrightarrow> get_chksum D h buf = Inr (v, h)"
  using fb
  by (simp_all add: fragment_buffer_def get_fragment_idx_def get_fragment_payload_size_def
      get_orig_data_size_def get_chksum_def idx_off_def size_off_def orig_data_size_off_def
      chksum_off_def)

lemma setters_then_getters:
  assumes wf: "wf_decls D" and fb: "fragment_buffer D h buf"
  shows "\<exists>h1 h2 h3 h4.
           set_fragment_idx D h buf a = Inr (0, h1) \<and>
           set_fragment_payload_size D h1 buf b = Inr (0, h2) \<and>
           set_orig_data_size D h2 buf c = Inr (0, h3) \<and>
           set_chksum D h3 buf d = Inr (0, h4) \<and>
           get_fragment_idx D h4 buf = Inr (a, h4) \<and>
           get_fragment_payload_size D h4 buf = Inr (b, h4) \<and>
           get_orig_data_size D h4 buf = Inr (c, h4) \<and>
           get_chksum D h4 buf = Inr (d, h4)"
proof -
  from setter_steps(1) [OF wf fb, of a] obtain h1 where
    s1: "set_fragment_idx D h buf a = Inr (0, h1)" and w1: "store32 h (buf + 4) a = Inr h1"
    and f1: "fragment_buffer D h1 buf" by blast
  from setter_steps(2) [OF wf f1, of b] obtain h2 where
    s2: "set_fragment_payload_size D h1 buf b = Inr (0, h2)" and w2: "store32 h1 (buf + 8) b = Inr h2"
    and f2: "fragment_buffer D h2 buf" by blast
  from setter_steps(3) [OF wf f2, of c] obtain h3 where
    s3: "set_orig_data_size D h2 buf c = Inr (0, h3)" and w3: "store32 h2 (buf + 12) c = Inr h3"
    and f3: "fragment_buffer D h3 buf" by blast
  from setter_steps(4) [OF wf f3, of d] obtain h4 where
    s4: "set_chksum D h3 buf d = Inr (0, h4)" and w4: "store32 h3 (buf + 16) d = Inr h4"
    and f4: "fragment_buffer D h4 buf" by blast
  have "load32 h4 (buf + 4) = load32 h3 (buf + 4)"
    by (rule store32_field_other [OF w4]) simp_all
  also have "\<dots> = load32 h2 (buf + 4)"
    by (rule store32_field_other [OF w3]) simp_all
  also have "\<dots> = load32 h1 (buf + 4)"
    by (rule store32_field_other [OF w2]) simp_all
  finally have ra: "load32 h4 (buf + 4) = Inr a"
    using load32_store32_same [OF w1] by simp
  have "load32 h4 (buf + 8) = load32 h3 (buf + 8)"
    by (rule store32_field_other [OF w4]) simp_all
  also have "\<dots> = load32 h2 (buf + 8)"
    by (rule store32_field_other [OF w3]) simp_all
  finally have rb: "load32 h4 (buf + 8) = Inr b"
    using load32_store32_same [OF w2] by simp
  have "load32 h4 (buf + 12) = load32 h3 (buf + 12)"
    by (rule store32_field_other [OF w4]) simp_all
  then have rc: "load32 h4 (buf + 12) = Inr c"
    using load32_store32_same [OF w3] by simp
  have rd: "load32 h4 (buf + 16) = Inr d"
    using load32_store32_same [OF w4] .
  show ?thesis
    using s1 s2 s3 s4 getter_reads [OF f4] ra rb rc rd by blast
qed

text \<open>
  C4. On a fragment buffer (sentinel intact), each setter stores its value and returns 0,
  and the matching getter, run on the store the setter leaves, returns exactly that
  value and leaves the store as it is (it logs nothing). This holds for the idx, the
  payload size, the original data size and the checksum, for every \<^verbatim>\<open>int\<close> \<open>v\<close>.
  The fields do not disturb each other: after the four setters have written \<open>a\<close>,
  \<open>b\<close>, \<open>c\<close> and \<open>d\<close> one after the other, the four getters return \<open>a\<close>, \<open>b\<close>,
  \<open>c\<close> and \<open>d\<close>.
\<close>

theorem accessors_round_trip:
  assumes "wf_decls D" and "fragment_buffer D h buf"
  shows "(\<exists>h1. set_fragment_idx D h buf v = Inr (0, h1) \<and>
               get_fragment_idx D h1 buf = Inr (v, h1)) \<and>
         (\<exists>h1. set_fragment_payload_size D h buf v = Inr (0, h1) \<and>
               get_fragment_payload_size D h1 buf = Inr (v, h1)) \<and>
         (\<exists>h1. set_orig_data_size D h buf v = Inr (0, h1) \<and>
               get_orig_data_size D h1 buf = Inr (v, h1)) \<and>
         (\<exists>h1. set_chksum D h buf v = Inr (0, h1) \<and>
               get_chksum D h1 buf = Inr (v, h1)) \<and>
         (\<exists>h1 h2 h3 h4.
               set_fragment_idx D h buf a = Inr (0, h1) \<and>
               set_fragment_payload_size D h1 buf b = Inr (0, h2) \<and>
               set_orig_data_size D h2 buf c = Inr (0, h3) \<and>
               set_chksum D h3 buf d = Inr (0, h4) \<and>
               get_fragment_idx D h4 buf = Inr (a, h4) \<and>
               get_fragment_payload_size D h4 buf = Inr (b, h4) \<and>
               get_orig_data_size D h4 buf = Inr (c, h4) \<and>
               get_chksum D h4 buf = Inr (d, h4))"
proof -
  have nz: "buf \<noteq> 0"
    and mg: "load32 h (buf + magic_off) = Inr (LIBERASURECODE_FRAG_HEADER_MAGIC D)"
    using assms(2) by (simp_all add: fragment_buffer_def)
  have idx: "\<exists>h1. set_fragment_idx D h buf v = Inr (0, h1) \<and>
                  get_fragment_idx D h1 buf = Inr (v, h1)"
    using set_get_field [OF assms, of idx_off v] nz mg
    by (auto simp add: set_fragment_idx_def get_fragment_idx_def idx_off_def)
  have sz: "\<exists>h1. set_fragment_payload_size D h buf v = Inr (0, h1) \<and>
                 get_fragment_payload_size D h1 buf = Inr (v, h1)"
    using set_get_field [OF assms, of size_off v] nz mg
    by (auto simp add: set_fragment_payload_size_def get_fragment_payload_size_def size_off_def)
  have od: "\<exists>h1. set_orig_data_size D h buf v = Inr (0, h1) \<and>
                 get_orig_data_size D h1 buf = Inr (v, h1)"
    using set_get_field [OF assms, of orig_data_size_off v] nz mg
    by (auto simp add: set_orig_data_size_def get_orig_data_size_def orig_data_size_off_def)
  have ck: "\<exists>h1. set_chksum D h buf v = Inr (0, h1) \<and> get_chksum D h1 buf = Inr (v, h1)"
    using set_get_field [OF assms, of chksum_off v] nz mg
    by (auto simp add: set_chksum_def get_chksum_def chksum_off_def)
  from idx sz od ck setters_then_getters [OF assms, of a b c d] show ?thesis
    by blast
qed

theorem accessors_round_trip_witness:
  "wf_decls ex_decls \<and> fragment_buffer ex_decls ex_heap 0x1000 \<and>
   (\<exists>h1. set_fragment_idx ex_decls ex_heap 0x1000 (- 1) = Inr (0, h1) \<and>
         get_fragment_idx ex_decls h1 0x1000 = Inr (- 1, h1)) \<and>
   (\<exists>h1. set_fragment_payload_size ex_decls ex_heap 0x1000 (- 1) = Inr (0, h1) \<and>
         get_fragment_payload_size ex_decls h1 0x1000 = Inr (- 1, h1)) \<and>
   (\<exists>h1. set_orig_data_size ex_decls ex_heap 0x1000 (- 1) = Inr (0, h1) \<and>
         get_orig_data_size ex_decls h1 0x1000 = Inr (- 1, h1)) \<and>
   (\<exists>h1. set_chksum ex_decls ex_heap 0x1000 (- 1) = Inr (0, h1) \<and>
         get_chksum ex_decls h1 0x1000 = Inr (- 1, h1)) \<and>
   (\<exists>h1 h2 h3 h4.
         set_fragment_idx ex_decls ex_heap 0x1000 3 = Inr (0, h1) \<and>
         set_fragment_payload_size ex_decls h1 0x1000 8 = Inr (0, h2) \<and>
         set_orig_data_size ex_decls h2 0x1000 77 = Inr (0, h3) \<and>
         set_chksum ex_decls h3 0x1000 0xdeadbeef = Inr (0, h4) \<and>
         get_fragment_idx ex_decls h4 0x1000 = Inr (3, h4) \<and>
         get_fragment_payload_size ex_decls h4 0x1000 = Inr (8, h4) \<and>
         get_orig_data_size ex_decls h4 0x1000 = Inr (77, h4) \<and>
         get_chksum ex_decls h4 0x1000 = Inr (0xdeadbeef, h4))"
  using ex_decls_wf ex_heap_fragment_buffer
    accessors_round_trip [OF ex_decls_wf ex_heap_fragment_buffer, of "- 1" 3 8 77 "0xdeadbeef"]
  by simp

section \<open>Total fragment size\<close>

text \<open>
  C6. \<^verbatim>\<open>get_fragment_size\<close> returns -1 (as a \<^verbatim>\<open>uint64_t\<close>) for the null pointer. For
  a non-null pointer whose size field can be read it returns that field, converted to
  \<^verbatim>\<open>size_t\<close>, plus the header size; for a size field that is not negative this is the
  sum of the two numbers. Nothing is assumed about the magic field: it is not read.
\<close>

theorem get_fragment_size_spec:
  "get_fragment_size D h 0 = Inr (- 1) \<and>
   (buf \<noteq> 0 \<longrightarrow> load32 h (buf + size_off) = Inr sz \<longrightarrow>
      get_fragment_size D h buf = Inr (scast sz + sizeof_fragment_header_t D) \<and>
      (0 \<le> sint sz \<longrightarrow> unat (sizeof_fragment_header_t D) < 2 ^ 63 \<longrightarrow>
         unat (scast sz + sizeof_fragment_header_t D) =
           nat (sint sz) + unat (sizeof_fragment_header_t D)))"
proof -
  have "unat (scast sz + sizeof_fragment_header_t D) =
          nat (sint sz) + unat (sizeof_fragment_header_t D)"
    if a: "0 \<le> sint sz" and b: "unat (sizeof_fragment_header_t D) < 2 ^ 63"
  proof -
    have "nat (sint sz) < 2147483648"
      using a sint32_lt [of sz] by linarith
    moreover have "unat (sizeof_fragment_header_t D) < 9223372036854775808"
      using b by simp
    ultimately have "nat (sint sz) + unat (sizeof_fragment_header_t D) < 18446744073709551616"
      by linarith
    then show ?thesis
      using unat_scast_nonneg [OF a] by (simp add: unat_word_ariths)
  qed
  then show ?thesis
    by (simp add: get_fragment_size_def)
qed

theorem get_fragment_size_spec_witness:
  "get_fragment_size ex_decls tampered_heap 0 = Inr (- 1) \<and>
   (0x1000 :: addr) \<noteq> 0 \<and>
   load32 tampered_heap (0x1000 + size_off) = Inr 5 \<and>
   load32 tampered_heap (0x1000 + magic_off) = Inr 0xb0c5ecd \<and>
   LIBERASURECODE_FRAG_HEADER_MAGIC ex_decls = 0xb0c5ecc \<and>
   get_fragment_size ex_decls tampered_heap 0x1000 = Inr 37 \<and>
   0 \<le> sint (5 :: cint) \<and> unat (sizeof_fragment_header_t ex_decls) < 2 ^ 63 \<and>
   unat (37 :: 64 word) = nat (sint (5 :: cint)) + unat (sizeof_fragment_header_t ex_decls)"
  using get_fragment_size_spec [of ex_decls tampered_heap "0x1000" 5]
  by (simp add: tampered_heap_def ex_decls_def load32_def valid_def in_block_def le32_def
      size_off_def magic_off_def)

section \<open>Allocation\<close>

lemma get_aligned_buffer16_Allocated:
  "get_aligned_buffer16 (Allocated p) junk h sz =
     Inr (p, \<lparr>mem = (\<lambda>a. if unat (a - p) < unat (scast sz :: size_t) then 0 else mem h a),
              blocks = (p, unat (scast sz :: size_t)) # blocks h,
              errlog = errlog h\<rparr>)"
  by (cases h)
    (simp add: get_aligned_buffer16_def posix_memalign_def memset_def valid_def in_block_def
      cong: if_cong)

lemma alloc_fragment_buffer_Allocated:
  assumes p: "p \<noteq> 0" and n: "4 \<le> fragment_alloc_size D sz"
  shows "\<exists>h1. alloc_fragment_buffer D (Allocated p) junk h sz = Inr (p, h1) \<and>
              blocks h1 = (p, fragment_alloc_size D sz) # blocks h \<and>
              errlog h1 = errlog h \<and>
              load32 h1 (p + magic_off) = Inr (LIBERASURECODE_FRAG_HEADER_MAGIC D)"
proof -
  define sz' :: cint where "sz' = ucast ((scast sz :: size_t) + sizeof_fragment_header_t D)"
  define h0 where "h0 = \<lparr>mem = (\<lambda>a. if unat (a - p) < unat (scast sz' :: size_t) then 0 else mem h a),
              blocks = (p, unat (scast sz' :: size_t)) # blocks h,
              errlog = errlog h\<rparr>"
  have sz': "unat (scast sz' :: size_t) = fragment_alloc_size D sz"
    by (simp add: sz'_def fragment_alloc_size_def)
  have v: "valid h0 (p + magic_off) 4"
    using n by (simp add: h0_def valid_def in_block_def magic_off_def sz')
  then obtain h1 where h1: "store32 h0 (p + magic_off) (LIBERASURECODE_FRAG_HEADER_MAGIC D) = Inr h1"
    and b: "blocks h1 = blocks h0" and e: "errlog h1 = errlog h0"
    using store32_Inr by blast
  have "alloc_fragment_buffer D (Allocated p) junk h sz = Inr (p, h1)"
    using p h1
    by (simp add: alloc_fragment_buffer_def get_aligned_buffer16_Allocated h0_def sz'_def Let_def)
  moreover have "blocks h1 = (p, fragment_alloc_size D sz) # blocks h"
    using b by (simp add: h0_def sz')
  moreover have "errlog h1 = errlog h"
    using e by (simp add: h0_def)
  moreover have "load32 h1 (p + magic_off) = Inr (LIBERASURECODE_FRAG_HEADER_MAGIC D)"
    using load32_store32_same [OF h1] .
  ultimately show ?thesis by blast
qed

lemma filter_fresh:
  assumes "list_all (apart p n) bs"
  shows "filter (\<lambda>blk. fst blk \<noteq> p) bs = bs"
  using assms by (induction bs) (auto simp add: apart_def)

lemma data_ptr_not_null:
  assumes "memalign_fresh h a p n" and "unat hs \<le> n"
  shows "p + hs \<noteq> 0"
proof -
  have p: "p \<noteq> 0" and lt: "unat p + n < 18446744073709551616"
    using assms(1) by (simp_all add: memalign_fresh_def)
  then have "unat p + unat hs < 18446744073709551616" using assms(2) by linarith
  then have "unat (p + hs) = unat p + unat hs"
    by (simp add: unat_word_ariths)
  moreover have "unat p \<noteq> 0" using p by (simp add: unat_eq_zero)
  ultimately have "unat (p + hs) \<noteq> 0" by linarith
  then show ?thesis by (metis unat_0)
qed


lemma fresh_fragment:
  assumes wf: "wf_decls D" and a: "0 \<le> sint sz"
    and b: "sint sz + uint (sizeof_fragment_header_t D) < 2147483648"
    and fr: "memalign_fresh h 16 p (nat (sint sz) + unat (sizeof_fragment_header_t D))"
  shows "\<exists>h1. alloc_fragment_buffer D (Allocated p) junk h sz = Inr (p, h1) \<and>
              blocks h1 = (p, nat (sint sz) + unat (sizeof_fragment_header_t D)) # blocks h \<and>
              errlog h1 = errlog h \<and>
              fragment_buffer D h1 p \<and>
              get_data_ptr_from_fragment D p \<noteq> 0"
proof -
  let ?n = "nat (sint sz) + unat (sizeof_fragment_header_t D)"
  have n: "fragment_alloc_size D sz = ?n"
    using fragment_alloc_size_eq [OF a b] .
  have hs: "20 \<le> unat (sizeof_fragment_header_t D)"
    using wf by (simp add: wf_decls_def)
  have p: "p \<noteq> 0" using fr by (simp add: memalign_fresh_def)
  have "4 \<le> fragment_alloc_size D sz" using n hs by linarith
  from alloc_fragment_buffer_Allocated [OF p this, of junk h]
  obtain h1 where h1: "alloc_fragment_buffer D (Allocated p) junk h sz = Inr (p, h1)"
    and bl: "blocks h1 = (p, ?n) # blocks h" and el: "errlog h1 = errlog h"
    and mg: "load32 h1 (p + magic_off) = Inr (LIBERASURECODE_FRAG_HEADER_MAGIC D)"
    using n by auto
  have "valid h1 p (unat (sizeof_fragment_header_t D))"
    by (simp add: valid_def bl in_block_def)
  then have "fragment_buffer D h1 p"
    using p mg by (simp add: fragment_buffer_def)
  moreover have "get_data_ptr_from_fragment D p \<noteq> 0"
    unfolding get_data_ptr_from_fragment_def
    by (rule data_ptr_not_null [OF fr]) simp
  ultimately show ?thesis using h1 bl el by blast
qed

lemma get_aligned_buffer16_Failed:
  "get_aligned_buffer16 (Failed e) junk h sz =
     (case memset h junk 0 (unat (scast sz :: size_t)) of
        Inl f \<Rightarrow> Inl f
      | Inr h2 \<Rightarrow> Inr (junk, h2))"
  by (cases e) (simp_all add: get_aligned_buffer16_def posix_memalign_def word_sless_alt)

text \<open>
  C5. \<^verbatim>\<open>get_aligned_buffer16\<close> tests \<^verbatim>\<open>posix_memalign(...) < 0\<close>, but \<^verbatim>\<open>posix_memalign\<close>
  reports a failure by a positive error number. So when the allocation fails, the
  function does not return \<^verbatim>\<open>NULL\<close>: it goes on to \<^verbatim>\<open>memset\<close> through the pointer its
  uninitialised local \<^verbatim>\<open>buf\<close> happens to hold and returns that pointer. The function is
  run with the allocation failing by \<^verbatim>\<open>ENOMEM\<close> and \<open>0x2000\<close> left in \<^verbatim>\<open>buf\<close>:
  \<^item> for the size -1 (a request of \<open>2 ^ 64 - 1\<close> bytes, which no allocator can serve)
    and for the size 16 in the empty store, the \<^verbatim>\<open>memset\<close> is an invalid access;
  \<^item> for the size 16 when \<open>0x2000\<close> is a live allocation of another owner, the 16
    bytes of that allocation are zeroed and the non-null pointer \<open>0x2000\<close> is returned
    as if it were a new buffer.
\<close>

theorem get_aligned_buffer16_failure_not_null:
  "get_aligned_buffer16 (Failed ENOMEM) 0x2000 empty_heap (- 1) = Inl InvalidAccess \<and>
   get_aligned_buffer16 (Failed ENOMEM) 0x2000 empty_heap 16 = Inl InvalidAccess \<and>
   get_aligned_buffer16 (Failed ENOMEM) 0x2000 victim_heap 16 = Inr (0x2000, zeroed_victim_heap)"
  by (simp add: get_aligned_buffer16_def posix_memalign_def memset_def valid_def in_block_def
      empty_heap_def victim_heap_def zeroed_victim_heap_def word_sless_alt cong: if_cong)

section \<open>Creating and destroying a fragment buffer\<close>

text \<open>
  C1, as the code has it. \<^verbatim>\<open>free_fragment_buffer\<close> subtracts the header size from its
  argument before it reads the sentinel. For a buffer that \<^verbatim>\<open>alloc_fragment_buffer\<close> has
  just returned (payload size not negative, total size an \<^verbatim>\<open>int\<close>, allocation
  successful at a fresh address), the call with the buffer's data pointer (fragment
  pointer plus header size) finds the sentinel, returns 0 and releases the whole
  allocation: the live allocations are again those from before the buffer was created,
  and nothing is logged.
\<close>

theorem destroy_with_data_pointer:
  assumes wf: "wf_decls D" and a: "0 \<le> sint sz"
    and b: "sint sz + uint (sizeof_fragment_header_t D) < 2147483648"
    and fr: "memalign_fresh h 16 p (nat (sint sz) + unat (sizeof_fragment_header_t D))"
  shows "\<exists>h1 h2. alloc_fragment_buffer D (Allocated p) junk h sz = Inr (p, h1) \<and>
                 fragment_buffer D h1 p \<and>
                 free_fragment_buffer D h1 (get_data_ptr_from_fragment D p) = Inr (0, h2) \<and>
                 blocks h2 = blocks h \<and> errlog h2 = errlog h"
proof -
  let ?n = "nat (sint sz) + unat (sizeof_fragment_header_t D)"
  from fresh_fragment [OF wf a b fr, of junk]
  obtain h1 where h1: "alloc_fragment_buffer D (Allocated p) junk h sz = Inr (p, h1)"
    and bl: "blocks h1 = (p, ?n) # blocks h" and el: "errlog h1 = errlog h"
    and fb: "fragment_buffer D h1 p" and dp: "get_data_ptr_from_fragment D p \<noteq> 0"
    by blast
  have p: "p \<noteq> 0" using fr by (simp add: memalign_fresh_def)
  have ap: "list_all (apart p ?n) (blocks h)" using fr by (simp add: memalign_fresh_def)
  define h2 where "h2 = h1\<lparr>blocks := filter (\<lambda>blk. fst blk \<noteq> p) (blocks h1)\<rparr>"
  have fr2: "free h1 p = Inr h2"
    using p by (simp add: free_def bl h2_def)
  have "free_fragment_buffer D h1 (get_data_ptr_from_fragment D p) = Inr (0, h2)"
    using dp fb fr2
    by (simp add: free_fragment_buffer_def fragment_buffer_def get_data_ptr_from_fragment_def)
  moreover have "blocks h2 = blocks h"
    using filter_fresh [OF ap] by (simp add: h2_def bl)
  moreover have "errlog h2 = errlog h"
    by (simp add: h2_def el)
  ultimately show ?thesis using h1 fb by blast
qed

theorem destroy_with_data_pointer_witness:
  "wf_decls ex_decls \<and> 0 \<le> sint (8 :: cint) \<and>
   sint (8 :: cint) + uint (sizeof_fragment_header_t ex_decls) < 2147483648 \<and>
   memalign_fresh ex_heap 16 0x2000 (nat (sint (8 :: cint)) + unat (sizeof_fragment_header_t ex_decls)) \<and>
   get_data_ptr_from_fragment ex_decls 0x2000 = 0x2020 \<and>
   (\<exists>h1 h2. alloc_fragment_buffer ex_decls (Allocated 0x2000) 0 ex_heap 8 = Inr (0x2000, h1) \<and>
            fragment_buffer ex_decls h1 0x2000 \<and>
            free_fragment_buffer ex_decls h1 0x2020 = Inr (0, h2) \<and>
            blocks h2 = [(0x1000, 40)] \<and> errlog h2 = [])"
proof -
  have a: "0 \<le> sint (8 :: cint)" by simp
  have b: "sint (8 :: cint) + uint (sizeof_fragment_header_t ex_decls) < 2147483648"
    by (simp add: ex_decls_def)
  have fr: "memalign_fresh ex_heap 16 0x2000
              (nat (sint (8 :: cint)) + unat (sizeof_fragment_header_t ex_decls))"
    by (simp add: memalign_fresh_def ex_heap_def ex_decls_def apart_def)
  have dp: "get_data_ptr_from_fragment ex_decls 0x2000 = 0x2020"
    by (simp add: get_data_ptr_from_fragment_def ex_decls_def)
  have bl: "blocks ex_heap = [(0x1000, 40)]" "errlog ex_heap = []"
    by (simp_all add: ex_heap_def)
  show ?thesis
    using destroy_with_data_pointer [OF ex_decls_wf a b fr, of 0] ex_decls_wf a b fr
    by (simp add: dp bl)
qed

text \<open>
  C1 as stated fails. \<^verbatim>\<open>alloc_fragment_buffer(8)\<close> in the empty store returns the
  fragment pointer \<open>0x1000\<close> to a buffer of 40 bytes with its sentinel in place.
  Destroying it through that fragment pointer makes \<^verbatim>\<open>free_fragment_buffer\<close> read a
  sentinel at \<open>0x1000 - 32\<close>, outside the allocation: there is no success and nothing
  is released. Where another fragment buffer lies right before the one to destroy
  (two buffers of payload size 0 at \<open>0x1000\<close> and \<open>0x1020\<close>), the call with the fragment
  pointer \<open>0x1020\<close> finds the sentinel of the buffer at \<open>0x1000\<close>, returns 0 and
  releases that buffer; the one at \<open>0x1020\<close> stays allocated.
\<close>

theorem destroy_with_fragment_pointer_fails:
  "alloc_fragment_buffer ex_decls (Allocated 0x1000) 0 empty_heap 8 = Inr (0x1000, ex_heap) \<and>
   free_fragment_buffer ex_decls ex_heap 0x1000 = Inl InvalidAccess \<and>
   alloc_fragment_buffer ex_decls (Allocated 0x1000) 0 empty_heap 0 =
     Inr (0x1000, first_fragment) \<and>
   memalign_fresh first_fragment 16 0x1020 32 \<and>
   alloc_fragment_buffer ex_decls (Allocated 0x1020) 0 first_fragment 0 =
     Inr (0x1020, two_fragments) \<and>
   free_fragment_buffer ex_decls two_fragments 0x1020 =
     Inr (0, two_fragments\<lparr>blocks := [(0x1020, 32)]\<rparr>)"
proof -
  have a: "alloc_fragment_buffer ex_decls (Allocated 0x1000) 0 empty_heap 8 = Inr (0x1000, ex_heap)"
    by (simp add: alloc_fragment_buffer_def get_aligned_buffer16_def posix_memalign_def
        memset_def store32_def valid_def in_block_def empty_heap_def ex_decls_def ex_heap_def
        magic_off_def magic_bytes Let_def cong: if_cong)
  have b: "free_fragment_buffer ex_decls ex_heap 0x1000 = Inl InvalidAccess"
    by (simp add: free_fragment_buffer_def load32_def valid_def in_block_def ex_decls_def
        ex_heap_def magic_off_def Let_def)
  have c: "alloc_fragment_buffer ex_decls (Allocated 0x1000) 0 empty_heap 0 =
             Inr (0x1000, first_fragment)"
    by (simp add: alloc_fragment_buffer_def get_aligned_buffer16_def posix_memalign_def
        memset_def store32_def valid_def in_block_def empty_heap_def ex_decls_def
        first_fragment_def magic_off_def magic_bytes Let_def cong: if_cong)
  have d: "memalign_fresh first_fragment 16 0x1020 32"
    by (simp add: memalign_fresh_def first_fragment_def apart_def)
  have e: "alloc_fragment_buffer ex_decls (Allocated 0x1020) 0 first_fragment 0 =
             Inr (0x1020, two_fragments)"
    by (auto simp add: alloc_fragment_buffer_def get_aligned_buffer16_def posix_memalign_def
        memset_def store32_def valid_def in_block_def ex_decls_def first_fragment_def
        two_fragments_def magic_off_def magic_bytes Let_def fun_eq_iff cong: if_cong)
  have f: "free_fragment_buffer ex_decls two_fragments 0x1020 =
             Inr (0, two_fragments\<lparr>blocks := [(0x1020, 32)]\<rparr>)"
    by (simp add: free_fragment_buffer_def free_def load32_def valid_def in_block_def
        ex_decls_def two_fragments_def magic_off_def le32_def Let_def)
  from a b c d e f show ?thesis by blast
qed

lemma free_fragment_buffer_released:
  assumes "free_fragment_buffer D h q = Inr (0, h2)"
  shows "q \<noteq> 0 \<and> blocks h2 = filter (\<lambda>blk. fst blk \<noteq> q - sizeof_fragment_header_t D) (blocks h) \<or>
         blocks h2 = blocks h"
  using assms
  by (auto simp add: free_fragment_buffer_def free_def Let_def
      split: if_splits sum.splits option.splits)

text \<open>
  C10. For a buffer just returned by \<^verbatim>\<open>alloc_fragment_buffer\<close> at \<open>p\<close>,
  \<^verbatim>\<open>free_fragment_buffer\<close> returns 0 and releases the allocation at \<open>p\<close> for exactly one
  argument: the data pointer \<open>p + sizeof(fragment_header_t)\<close>, which is not the
  fragment pointer \<open>p\<close>. The sentinel it checks is the one at its argument minus the
  header size: whenever the \<^verbatim>\<open>int\<close> there is not the sentinel, it logs and returns -1.
\<close>

theorem free_fragment_buffer_expects_data_pointer:
  assumes wf: "wf_decls D" and a: "0 \<le> sint sz"
    and b: "sint sz + uint (sizeof_fragment_header_t D) < 2147483648"
    and fr: "memalign_fresh h 16 p (nat (sint sz) + unat (sizeof_fragment_header_t D))"
  shows "\<exists>h1. alloc_fragment_buffer D (Allocated p) junk h sz = Inr (p, h1) \<and>
              (\<forall>q. (\<exists>h2. free_fragment_buffer D h1 q = Inr (0, h2) \<and> p \<notin> fst ` set (blocks h2))
                     \<longleftrightarrow> q = get_data_ptr_from_fragment D p) \<and>
              get_data_ptr_from_fragment D p \<noteq> p \<and>
              (\<forall>q m. q \<noteq> 0 \<and>
                     load32 h1 (q - sizeof_fragment_header_t D + magic_off) = Inr m \<and>
                     m \<noteq> LIBERASURECODE_FRAG_HEADER_MAGIC D \<longrightarrow>
                     free_fragment_buffer D h1 q =
                       Inr (- 1, log_error ''Invalid fragment header (free fragment)!'' h1))"
proof -
  let ?n = "nat (sint sz) + unat (sizeof_fragment_header_t D)"
  from fresh_fragment [OF wf a b fr, of junk]
  obtain h1 where h1: "alloc_fragment_buffer D (Allocated p) junk h sz = Inr (p, h1)"
    and bl: "blocks h1 = (p, ?n) # blocks h"
    and fb: "fragment_buffer D h1 p" and dp: "get_data_ptr_from_fragment D p \<noteq> 0"
    by blast
  have p: "p \<noteq> 0" using fr by (simp add: memalign_fresh_def)
  have fwd: "q = get_data_ptr_from_fragment D p"
    if r: "free_fragment_buffer D h1 q = Inr (0, h2)" and g: "p \<notin> fst ` set (blocks h2)" for q h2
  proof -
    have live: "p \<in> fst ` set (blocks h1)" by (simp add: bl)
    from free_fragment_buffer_released [OF r] g live
    have "blocks h2 = filter (\<lambda>blk. fst blk \<noteq> q - sizeof_fragment_header_t D) (blocks h1)"
      by auto
    with g have "\<not> p \<noteq> q - sizeof_fragment_header_t D"
      by (auto simp add: bl split: if_splits)
    then show ?thesis by (simp add: get_data_ptr_from_fragment_def)
  qed
  have bwd: "\<exists>h2. free_fragment_buffer D h1 (get_data_ptr_from_fragment D p) = Inr (0, h2) \<and>
                  p \<notin> fst ` set (blocks h2)"
  proof -
    define h2 where "h2 = h1\<lparr>blocks := filter (\<lambda>blk. fst blk \<noteq> p) (blocks h1)\<rparr>"
    have fr2: "free h1 p = Inr h2"
      using p by (simp add: free_def bl h2_def)
    have "free_fragment_buffer D h1 (get_data_ptr_from_fragment D p) = Inr (0, h2)"
      using dp fb fr2
      by (simp add: free_fragment_buffer_def fragment_buffer_def get_data_ptr_from_fragment_def)
    moreover have "p \<notin> fst ` set (blocks h2)"
      by (auto simp add: h2_def)
    ultimately show ?thesis by blast
  qed
  have "20 \<le> unat (sizeof_fragment_header_t D)"
    using wf by (simp add: wf_decls_def)
  then have "sizeof_fragment_header_t D \<noteq> 0" by auto
  then have ne: "get_data_ptr_from_fragment D p \<noteq> p"
    by (simp add: get_data_ptr_from_fragment_def)
  have iff: "\<forall>q. (\<exists>h2. free_fragment_buffer D h1 q = Inr (0, h2) \<and> p \<notin> fst ` set (blocks h2))
                     \<longleftrightarrow> q = get_data_ptr_from_fragment D p"
    using fwd bwd by blast
  have rej: "\<forall>q m. q \<noteq> 0 \<and>
                     load32 h1 (q - sizeof_fragment_header_t D + magic_off) = Inr m \<and>
                     m \<noteq> LIBERASURECODE_FRAG_HEADER_MAGIC D \<longrightarrow>
                     free_fragment_buffer D h1 q =
                       Inr (- 1, log_error ''Invalid fragment header (free fragment)!'' h1)"
    by (simp add: free_fragment_buffer_def)
  from h1 iff ne rej show ?thesis by blast
qed

theorem free_fragment_buffer_expects_data_pointer_witness:
  "wf_decls ex_decls \<and> 0 \<le> sint (8 :: cint) \<and>
   sint (8 :: cint) + uint (sizeof_fragment_header_t ex_decls) < 2147483648 \<and>
   memalign_fresh ex_heap 16 0x2000
     (nat (sint (8 :: cint)) + unat (sizeof_fragment_header_t ex_decls)) \<and>
   get_data_ptr_from_fragment ex_decls 0x2000 = 0x2020 \<and>
   (\<exists>h1. alloc_fragment_buffer ex_decls (Allocated 0x2000) 0 ex_heap 8 = Inr (0x2000, h1) \<and>
         (\<forall>q. (\<exists>h2. free_fragment_buffer ex_decls h1 q = Inr (0, h2) \<and>
                     0x2000 \<notin> fst ` set (blocks h2)) \<longleftrightarrow> q = 0x2020) \<and>
         (0x2020 :: addr) \<noteq> 0x2000)"
proof -
  have a: "0 \<le> sint (8 :: cint)" by simp
  have b: "sint (8 :: cint) + uint (sizeof_fragment_header_t ex_decls) < 2147483648"
    by (simp add: ex_decls_def)
  have fr: "memalign_fresh ex_heap 16 0x2000
              (nat (sint (8 :: cint)) + unat (sizeof_fragment_header_t ex_decls))"
    by (simp add: memalign_fresh_def ex_heap_def ex_decls_def apart_def)
  have dp: "get_data_ptr_from_fragment ex_decls 0x2000 = 0x2020"
    by (simp add: get_data_ptr_from_fragment_def ex_decls_def)
  have main: "\<exists>h1. alloc_fragment_buffer ex_decls (Allocated 0x2000) 0 ex_heap 8 = Inr (0x2000, h1) \<and>
         (\<forall>q. (\<exists>h2. free_fragment_buffer ex_decls h1 q = Inr (0, h2) \<and>
                     0x2000 \<notin> fst ` set (blocks h2)) \<longleftrightarrow> q = 0x2020)"
    using free_fragment_buffer_expects_data_pointer [OF ex_decls_wf a b fr, of 0]
    unfolding dp by blast
  show ?thesis
    using ex_decls_wf a b fr dp main by simp
qed

section \<open>A sentinel that does not match\<close>

lemma tampered_heap_magic:
  "load32 tampered_heap (0x1000 + magic_off) = Inr 0xb0c5ecd"
  by (simp add: tampered_heap_def load32_def valid_def in_block_def le32_def magic_off_def)

text \<open>
  C2, as the code has it. When the magic field of the header at \<open>buf\<close> does not hold
  the sentinel, each getter and setter of idx, payload size, original data size and
  checksum returns -1, and so does \<^verbatim>\<open>free_fragment_buffer\<close> called with the data pointer
  of the buffer. The store they leave is the one they were given with one line added to
  the log: no byte of memory is written and no allocation is released.
  (\<^verbatim>\<open>get_fragment_size\<close> is left out: it does not read the magic field.)
\<close>

theorem tampered_sentinel_rejected:
  assumes nz: "buf \<noteq> 0"
    and ld: "load32 h (buf + magic_off) = Inr magic"
    and bad: "magic \<noteq> LIBERASURECODE_FRAG_HEADER_MAGIC D"
  shows "set_fragment_idx D h buf v =
           Inr (- 1, log_error (''Invalid fragment header (idx check)!'' @ [CHR 0x0A]) h) \<and>
         get_fragment_idx D h buf =
           Inr (- 1, log_error ''Invalid fragment header (get idx)!'' h) \<and>
         set_fragment_payload_size D h buf v =
           Inr (- 1, log_error ''Invalid fragment header (size check)!'' h) \<and>
         get_fragment_payload_size D h buf =
           Inr (- 1, log_error ''Invalid fragment header (get size)!'' h) \<and>
         set_orig_data_size D h buf v =
           Inr (- 1, log_error ''Invalid fragment header (set orig data check)!'' h) \<and>
         get_orig_data_size D h buf =
           Inr (- 1, log_error ''Invalid fragment header (get orig data check)!'' h) \<and>
         set_chksum D h buf v =
           Inr (- 1, log_error (''Invalid fragment header (set chksum)!'' @ [CHR 0x0A]) h) \<and>
         get_chksum D h buf =
           Inr (- 1, log_error ''Invalid fragment header (get chksum)!'' h) \<and>
         free_fragment_buffer D h (get_data_ptr_from_fragment D buf) =
           Inr (- 1, if get_data_ptr_from_fragment D buf = 0 then h
                     else log_error ''Invalid fragment header (free fragment)!'' h) \<and>
         mem (log_error msg h) = mem h \<and> blocks (log_error msg h) = blocks h"
  using assms
  by (simp add: set_fragment_idx_def get_fragment_idx_def set_fragment_payload_size_def
      get_fragment_payload_size_def set_orig_data_size_def get_orig_data_size_def
      set_chksum_def get_chksum_def free_fragment_buffer_def get_data_ptr_from_fragment_def
      log_error_def)

theorem tampered_sentinel_rejected_witness:
  "(0x1000 :: addr) \<noteq> 0 \<and>
   load32 tampered_heap (0x1000 + magic_off) = Inr 0xb0c5ecd \<and>
   0xb0c5ecd \<noteq> LIBERASURECODE_FRAG_HEADER_MAGIC ex_decls \<and>
   set_fragment_idx ex_decls tampered_heap 0x1000 3 =
     Inr (- 1, log_error (''Invalid fragment header (idx check)!'' @ [CHR 0x0A]) tampered_heap) \<and>
   get_chksum ex_decls tampered_heap 0x1000 =
     Inr (- 1, log_error ''Invalid fragment header (get chksum)!'' tampered_heap) \<and>
   free_fragment_buffer ex_decls tampered_heap 0x1020 =
     Inr (- 1, log_error ''Invalid fragment header (free fragment)!'' tampered_heap) \<and>
   blocks (log_error ''Invalid fragment header (free fragment)!'' tampered_heap) = [(0x1000, 40)]"
proof -
  have bad: "0xb0c5ecd \<noteq> LIBERASURECODE_FRAG_HEADER_MAGIC ex_decls"
    by (simp add: ex_decls_def)
  have nz: "(0x1000 :: addr) \<noteq> 0" by simp
  have dp: "get_data_ptr_from_fragment ex_decls 0x1000 = 0x1020"
    by (simp add: get_data_ptr_from_fragment_def ex_decls_def)
  have bl: "blocks tampered_heap = [(0x1000, 40)]"
    by (simp add: tampered_heap_def)
  show ?thesis
    using tampered_sentinel_rejected [OF nz tampered_heap_magic bad,
        of 3 "''Invalid fragment header (free fragment)!''"]
      tampered_heap_magic bad
    by (simp add: dp bl)
qed

text \<open>
  C2 as stated fails for \<^verbatim>\<open>get_fragment_size\<close>. In the store with the altered
  sentinel (\<open>0xb0c5ecd\<close> where \<open>0xb0c5ecc\<close> is expected) and the size field 5,
  \<^verbatim>\<open>get_fragment_size\<close> returns 5 + 32 = 37, not -1. It also fails for
  \<^verbatim>\<open>free_fragment_buffer\<close> called with the fragment pointer of the tampered buffer:
  the sentinel it reads is not the one of that buffer. With an intact fragment buffer
  at \<open>0x1000\<close> right before the tampered one at \<open>0x1020\<close>, the call with \<open>0x1020\<close>
  returns 0 and releases the buffer at \<open>0x1000\<close>.
\<close>

theorem get_fragment_size_ignores_sentinel:
  "load32 tampered_heap (0x1000 + magic_off) = Inr 0xb0c5ecd \<and>
   LIBERASURECODE_FRAG_HEADER_MAGIC ex_decls = 0xb0c5ecc \<and>
   get_fragment_size ex_decls tampered_heap 0x1000 = Inr 37 \<and>
   get_fragment_size ex_decls tampered_heap 0x1000 \<noteq> Inr (- 1) \<and>
   load32 two_fragments_tampered (0x1020 + magic_off) = Inr 0xb0c5ecd \<and>
   free_fragment_buffer ex_decls two_fragments_tampered 0x1020 =
     Inr (0, two_fragments_tampered\<lparr>blocks := [(0x1020, 32)]\<rparr>)"
  by (simp add: tampered_heap_def two_fragments_tampered_def ex_decls_def load32_def valid_def
      in_block_def le32_def size_off_def magic_off_def get_fragment_size_def
      free_fragment_buffer_def free_def Let_def)

section \<open>Fragment pointer and data pointer are two views of one buffer\<close>

text \<open>
  C7. For a fragment buffer at \<open>frag\<close> (sentinel intact) with data pointer \<open>data\<close>, the
  validating conversion \<^verbatim>\<open>get_fragment_ptr_from_data\<close> returns \<open>frag\<close> and leaves the
  store alone, and \<^verbatim>\<open>get_data_ptr_from_fragment\<close> of what it returns is \<open>data\<close> again.
  The conversion without validation and \<^verbatim>\<open>get_data_ptr_from_fragment\<close> are inverse to
  each other on every pointer \<open>p\<close>.
\<close>

theorem pointer_conversions:
  assumes "fragment_buffer D h frag" and "data = get_data_ptr_from_fragment D frag"
  shows "get_fragment_ptr_from_data D h data = Inr (frag, h) \<and>
         get_data_ptr_from_fragment D (fst (projr (get_fragment_ptr_from_data D h data))) = data \<and>
         get_fragment_ptr_from_data_novalidate D (get_data_ptr_from_fragment D p) = p \<and>
         get_data_ptr_from_fragment D (get_fragment_ptr_from_data_novalidate D p) = p"
  using assms
  by (simp add: fragment_buffer_def get_fragment_ptr_from_data_def get_data_ptr_from_fragment_def
      get_fragment_ptr_from_data_novalidate_def)

theorem pointer_conversions_witness:
  "fragment_buffer ex_decls ex_heap 0x1000 \<and>
   get_data_ptr_from_fragment ex_decls 0x1000 = 0x1020 \<and>
   get_fragment_ptr_from_data ex_decls ex_heap 0x1020 = Inr (0x1000, ex_heap) \<and>
   get_data_ptr_from_fragment ex_decls
     (fst (projr (get_fragment_ptr_from_data ex_decls ex_heap 0x1020))) = 0x1020 \<and>
   get_fragment_ptr_from_data_novalidate ex_decls (get_data_ptr_from_fragment ex_decls 7) = 7 \<and>
   get_data_ptr_from_fragment ex_decls (get_fragment_ptr_from_data_novalidate ex_decls 7) = 7"
proof -
  have dp: "0x1020 = get_data_ptr_from_fragment ex_decls 0x1000"
    by (simp add: get_data_ptr_from_fragment_def ex_decls_def)
  show ?thesis
    using pointer_conversions [OF ex_heap_fragment_buffer dp, of 7] ex_heap_fragment_buffer dp
    by simp
qed

section \<open>Aligned data size\<close>

lemma round_up_least:
  fixes g d :: int
  assumes g: "0 < g"
  shows "d \<le> - (- d div g) * g \<and> (\<forall>y. g dvd y \<and> d \<le> y \<longrightarrow> - (- d div g) * g \<le> y)"
proof -
  define q where "q = - (- d div g)"
  have "(- d div g) * g + (- d) mod g = - d"
    by (rule div_mult_mod_eq)
  moreover have "q * g = - ((- d div g) * g)"
    by (simp add: q_def)
  ultimately have e: "q * g = d + (- d) mod g"
    by linarith
  have m: "0 \<le> (- d) mod g" "(- d) mod g < g"
    using g by simp_all
  have ge: "d \<le> q * g" using e m by linarith
  have lt: "q * g < d + g" using e m by linarith
  have "q * g \<le> y" if "g dvd y" and dy: "d \<le> y" for y
  proof -
    from that obtain k where y: "y = g * k" by (auto simp: dvd_def)
    have "q * g < g * (k + 1)" using lt dy y by (simp add: algebra_simps)
    then have "q < k + 1" using g by (simp add: mult.commute)
    then have "q \<le> k" by linarith
    then show "q * g \<le> y" using g y by (simp add: mult.commute)
  qed
  with ge show ?thesis by (simp add: q_def)
qed

text \<open>
  C3, as the code has it. When the granularity is positive and an \<^verbatim>\<open>int\<close>, \<open>data_len\<close>
  is not negative, and some multiple of the granularity that is at least \<open>data_len\<close> is
  an \<^verbatim>\<open>int\<close>, \<^verbatim>\<open>get_aligned_data_size\<close> returns the smallest multiple of the granularity
  that is at least \<open>data_len\<close>; for \<open>data_len = 0\<close> it returns 0.
\<close>

theorem get_aligned_data_size_rounds_up:
  assumes g0: "0 < granularity D instance" and g1: "granularity D instance < 2147483648"
    and d: "0 \<le> sint data_len"
    and fit: "granularity D instance dvd x" "sint data_len \<le> x" "x < 2147483648"
  shows "\<exists>r. get_aligned_data_size D instance data_len = Inr r \<and>
             granularity D instance dvd sint r \<and> sint data_len \<le> sint r \<and>
             (\<forall>y. granularity D instance dvd y \<and> sint data_len \<le> y \<longrightarrow> sint r \<le> y) \<and>
             (data_len = 0 \<longrightarrow> r = 0)"
proof -
  define g where "g = granularity D instance"
  define k where "k = sint (uargs_k instance)"
  define w where "w = sint (uargs_w instance)"
  define q where "q = - (- sint data_len div g)"
  have gpos: "0 < g" and glt: "g < 2147483648" using g0 g1 by (simp_all add: g_def)
  have am: "(if EC_BACKEND_JERASURE_RS_CAUCHY D = common_id instance
            then (if int_range (k * w)
                  then Inr (signed_take_bit 31 (k * w * (sizeof_long * 128)))
                  else Inl SignedOverflow)
            else (if int_range (k * (w sdiv 8))
                  then Inr (k * (w sdiv 8))
                  else Inl SignedOverflow)) = (Inr g :: fault + int)"
  proof (cases "EC_BACKEND_JERASURE_RS_CAUCHY D = common_id instance")
    case True
    then have ge: "g = k * w * 1024"
      by (simp add: g_def granularity_def k_def w_def sizeof_long_def)
    then have "0 < k * w" "k * w < 2147483648" using gpos glt by linarith+
    then have "int_range (k * w)" by (simp add: int_range_def)
    moreover have "signed_take_bit 31 g = g"
      using gpos glt by (intro signed_take_bit_int_eq_self) simp_all
    ultimately show ?thesis using True ge by (simp add: sizeof_long_def)
  next
    case False
    then have ge: "g = k * (w sdiv 8)"
      by (auto simp add: g_def granularity_def k_def w_def)
    then have "int_range (k * (w sdiv 8))" using gpos glt by (simp add: int_range_def)
    then show ?thesis using False ge by simp
  qed
  have ceil: "\<lceil>real_of_int (sint data_len) / real_of_int g\<rceil> = q"
    by (simp only: q_def ceiling_divide_eq_div)
  have ru: "sint data_len \<le> q * g" "\<And>y. g dvd y \<Longrightarrow> sint data_len \<le> y \<Longrightarrow> q * g \<le> y"
    using round_up_least [OF gpos, of "sint data_len"] by (simp_all add: q_def)
  have qg_lo: "0 \<le> q * g" using ru(1) d by linarith
  have "q * g \<le> x" using ru(2) fit(1,2) by (simp add: g_def)
  then have qg_hi: "q * g < 2147483648" using fit(3) by linarith
  have q_lo: "0 \<le> q"
    using qg_lo gpos by (simp add: zero_le_mult_iff)
  have "q \<le> q * g" using q_lo gpos by (simp add: mult_le_cancel_left1)
  then have q_hi: "q < 2147483648" using qg_hi by linarith
  have rq: "int_range q" using q_lo q_hi by (simp add: int_range_def)
  have rqg: "int_range (q * g)" using qg_lo qg_hi by (simp add: int_range_def)
  define r :: cint where "r = word_of_int (q * g)"
  have sr: "sint r = q * g"
    unfolding r_def using qg_lo qg_hi by (intro sint_word_of_int32) linarith+
  have res: "get_aligned_data_size D instance data_len = Inr r"
    using gpos rq rqg
    by (simp add: get_aligned_data_size_def Let_def am [unfolded k_def w_def] ceil r_def
        del: of_int_sint)
  have zero: "r = 0" if "data_len = 0"
    using that gpos by (simp add: r_def q_def)
  show ?thesis
    using res sr ru zero by (auto simp add: g_def)
qed

theorem get_aligned_data_size_rounds_up_witness:
  "granularity ex_decls \<lparr>uargs_k = 10, uargs_m = 4, uargs_w = 8, common_id = 1\<rparr> = 10 \<and>
   (0 :: int) < 10 \<and> (10 :: int) < 2147483648 \<and> 0 \<le> sint (77 :: cint) \<and>
   (10 :: int) dvd 80 \<and> sint (77 :: cint) \<le> 80 \<and> (80 :: int) < 2147483648 \<and>
   get_aligned_data_size ex_decls \<lparr>uargs_k = 10, uargs_m = 4, uargs_w = 8, common_id = 1\<rparr> 77
     = Inr 80 \<and>
   get_aligned_data_size ex_decls \<lparr>uargs_k = 10, uargs_m = 4, uargs_w = 8, common_id = 1\<rparr> 80
     = Inr 80 \<and>
   granularity ex_decls \<lparr>uargs_k = 4, uargs_m = 2, uargs_w = 8, common_id = 2\<rparr> = 32768 \<and>
   get_aligned_data_size ex_decls \<lparr>uargs_k = 4, uargs_m = 2, uargs_w = 8, common_id = 2\<rparr> 77
     = Inr 32768"
  using get_aligned_data_size_rounds_up
    [of ex_decls "\<lparr>uargs_k = 10, uargs_m = 4, uargs_w = 8, common_id = 1\<rparr>" 77 80]
  by (simp add: get_aligned_data_size_def granularity_def ex_decls_def int_range_def
      signed_divide_int_def sizeof_long_def)

text \<open>
  C3 as stated fails where the granularity is not positive. With k = 10 and w = 4 on a
  backend other than Cauchy, \<open>word_size = 4 / 8 = 0\<close> and the granularity is 0: the
  quotient \<open>77 / 0\<close> is an infinity, which \<^verbatim>\<open>(int)\<close> cannot convert, and no multiple of 0
  is at least 77. With k = -10 and w = 8 the granularity is -10:
  \<open>ceil (77 / -10) = -7\<close> and the result is 70, less than \<open>data_len = 77\<close>.
\<close>

theorem get_aligned_data_size_counterexample:
  "get_aligned_data_size ex_decls \<lparr>uargs_k = 10, uargs_m = 4, uargs_w = 4, common_id = 1\<rparr> 77
     = Inl FloatToIntUndefined \<and>
   get_aligned_data_size ex_decls \<lparr>uargs_k = - 10, uargs_m = 4, uargs_w = 8, common_id = 1\<rparr> 77
     = Inr 70 \<and>
   sint (70 :: cint) < sint (77 :: cint)"
  by (simp add: get_aligned_data_size_def ex_decls_def int_range_def signed_divide_int_def)

section \<open>Data pointers of an array of fragments\<close>

lemma get_data_ptr_array_loop_spec:
  assumes "sint n = int (length frags)" and "length frags \<le> length data" and "i \<le> length frags"
  shows "get_data_ptr_array_loop D data frags n i num =
           Inr (num + length (filter (\<lambda>f. f \<noteq> 0) (drop i frags)),
                take i data @ map (\<lambda>f. if f = 0 then 0 else get_data_ptr_from_fragment D f) (drop i frags) @ drop (length frags) data)"
  using assms
proof (induction "length frags - i" arbitrary: data i num)
  case 0
  then have i: "i = length frags" by simp
  then have "\<not> int i < sint n" using 0 by simp
  then show ?case
    using i by (subst get_data_ptr_array_loop.simps) simp
next
  case (Suc k)
  then have i: "i < length frags" by linarith
  then have lt: "int i < sint n" using Suc.prems by simp
  have id: "i < length data" using i Suc.prems by linarith
  have dr: "drop i frags = frags ! i # drop (Suc i) frags"
    using i by (simp add: Cons_nth_drop_Suc)
  have k: "k = length frags - Suc i" using Suc.hyps by linarith
  have tk: "take (Suc i) (data[i := v]) = take i data @ [v]" for v
    using id by (simp add: take_Suc_conv_app_nth)
  have dp: "drop (length frags) (data[i := v]) = drop (length frags) data" for v
    using i by simp
  show ?case
  proof (cases "frags ! i = 0")
    case True
    have "get_data_ptr_array_loop D data frags n i num =
          get_data_ptr_array_loop D (data[i := 0]) frags n (Suc i) num"
      using lt i id True by (subst get_data_ptr_array_loop.simps) simp
    also have "\<dots> = Inr (num + length (filter (\<lambda>f. f \<noteq> 0) (drop (Suc i) frags)),
                take (Suc i) (data[i := 0]) @ map (\<lambda>f. if f = 0 then 0 else get_data_ptr_from_fragment D f) (drop (Suc i) frags) @
                drop (length frags) (data[i := 0]))"
      using Suc.prems i by (intro Suc.hyps(1) k) simp_all
    finally show ?thesis
      using True by (simp add: dr tk dp)
  next
    case False
    have "get_data_ptr_array_loop D data frags n i num =
          get_data_ptr_array_loop D (data[i := get_data_ptr_from_fragment D (frags ! i)])
            frags n (Suc i) (Suc num)"
      using lt i id False by (subst get_data_ptr_array_loop.simps) simp
    also have "\<dots> = Inr (Suc num + length (filter (\<lambda>f. f \<noteq> 0) (drop (Suc i) frags)),
                take (Suc i) (data[i := get_data_ptr_from_fragment D (frags ! i)]) @
                map (\<lambda>f. if f = 0 then 0 else get_data_ptr_from_fragment D f) (drop (Suc i) frags) @
                drop (length frags) (data[i := get_data_ptr_from_fragment D (frags ! i)]))"
      using Suc.prems i by (intro Suc.hyps(1) k) simp_all
    finally show ?thesis
      using False by (simp add: dr tk dp)
  qed
qed

text \<open>
  C8. For a list of \<open>n\<close> fragment pointers (\<open>n = num_fragments\<close>) and a data array with
  room for \<open>n\<close> entries, \<^verbatim>\<open>get_data_ptr_array_from_fragments\<close> writes at every position
  \<open>i < n\<close> the null pointer where the \<open>i\<close>-th fragment pointer is null and that pointer
  plus the header size otherwise, in the order given; entries of the data array from
  \<open>n\<close> on keep their values. It returns the number of fragment pointers that are not
  null.
\<close>

theorem get_data_ptr_array_from_fragments_spec:
  assumes "sint num_fragments = int (length fragments)"
    and "length fragments \<le> length data_array"
  shows "get_data_ptr_array_from_fragments D data_array fragments num_fragments =
           Inr (of_nat (length (filter (\<lambda>f. f \<noteq> 0) fragments)),
                map (\<lambda>f. if f = 0 then 0 else get_data_ptr_from_fragment D f) fragments @
                drop (length fragments) data_array) \<and>
         sint (of_nat (length (filter (\<lambda>f. f \<noteq> 0) fragments)) :: cint) =
           int (length (filter (\<lambda>f. f \<noteq> 0) fragments))"
proof -
  have "length (filter (\<lambda>f. f \<noteq> 0) fragments) \<le> length fragments"
    by simp
  moreover have "int (length fragments) < 2147483648"
    using assms(1) sint32_lt [of num_fragments] by linarith
  ultimately have c: "int (length (filter (\<lambda>f. f \<noteq> 0) fragments)) < 2147483648"
    by linarith
  have "sint (word_of_int (int (length (filter (\<lambda>f. f \<noteq> 0) fragments))) :: cint) =
          int (length (filter (\<lambda>f. f \<noteq> 0) fragments))"
    using c by (intro sint_word_of_int32) linarith+
  then have s: "sint (of_nat (length (filter (\<lambda>f. f \<noteq> 0) fragments)) :: cint) =
           int (length (filter (\<lambda>f. f \<noteq> 0) fragments))"
    by simp
  show ?thesis
    using get_data_ptr_array_loop_spec [OF assms, of 0 D 0] s
    by (simp add: get_data_ptr_array_from_fragments_def)
qed

theorem get_data_ptr_array_from_fragments_spec_witness:
  "sint (3 :: cint) = int (length [0x1000, 0, 0x2000 :: addr]) \<and>
   length [0x1000, 0, 0x2000 :: addr] \<le> length [7, 7, 7, 7 :: addr] \<and>
   get_data_ptr_array_from_fragments ex_decls [7, 7, 7, 7] [0x1000, 0, 0x2000] 3 =
     Inr (2, [0x1020, 0, 0x2020, 7])"
proof -
  have a: "sint (3 :: cint) = int (length [0x1000, 0, 0x2000 :: addr])" by simp
  have b: "length [0x1000, 0, 0x2000 :: addr] \<le> length [7, 7, 7, 7 :: addr]" by simp
  show ?thesis
    using get_data_ptr_array_from_fragments_spec [OF a b, of ex_decls] a b
    by (simp add: get_data_ptr_from_fragment_def ex_decls_def)
qed

section \<open>Null safety of the destroy operation\<close>

text \<open>
  C9. \<^verbatim>\<open>free_fragment_buffer\<close> called with the null pointer returns -1 at once: it reads
  no header, logs nothing and frees nothing, so the store is the one it was given.
\<close>

theorem free_fragment_buffer_null:
  "free_fragment_buffer D h 0 = Inr (- 1, h)"
  by (simp add: free_fragment_buffer_def)

end
